theory Spec2Isabelle
  imports Complex_Main "HOL-Library.AList"
begin

section \<open>JavaScript strings and values\<close>

text \<open>
  Strings are lists of characters. \<open>strIncludes\<close> is \<open>String.prototype.includes\<close>
  (substring search), \<open>toDecimal\<close> is the decimal rendering a template literal gives a
  non-negative integer (\<open>digit\<close> is only applied to numbers below 10), \<open>toLowerCase\<close> is
  \<open>String.prototype.toLowerCase\<close> on ASCII.
\<close>

fun startsWith :: "string \<Rightarrow> string \<Rightarrow> bool" where
  "startsWith s [] = True"
| "startsWith [] (p # ps) = False"
| "startsWith (c # cs) (p # ps) = (c = p \<and> startsWith cs ps)"

fun strIncludes :: "string \<Rightarrow> string \<Rightarrow> bool" where
  "strIncludes [] p = (p = [])"
| "strIncludes (c # cs) p = (startsWith (c # cs) p \<or> strIncludes cs p)"

definition digit :: "nat \<Rightarrow> char" where
  "digit d = ''0123456789'' ! d"

function toDecimal :: "nat \<Rightarrow> string" where
  "toDecimal n = (if n < 10 then [digit n] else toDecimal (n div 10) @ [digit (n mod 10)])"
  by pat_completeness auto
termination
  by (relation "measure id") auto

declare toDecimal.simps [simp del]

definition lowerChar :: "char \<Rightarrow> char" where
  "lowerChar c =
     (case map_of (zip ''ABCDEFGHIJKLMNOPQRSTUVWXYZ'' ''abcdefghijklmnopqrstuvwxyz'') c of
        None \<Rightarrow> c
      | Some l \<Rightarrow> l)"

definition toLowerCase :: "string \<Rightarrow> string" where
  "toLowerCase s = map lowerChar s"

fun joinWith :: "string \<Rightarrow> string list \<Rightarrow> string" where
  "joinWith sep [] = []"
| "joinWith sep [x] = x"
| "joinWith sep (x # y # ys) = x @ sep @ joinWith sep (y # ys)"

text \<open>
  \<open>a || d\<close> on an optional number: \<open>undefined\<close> and \<open>0\<close> are falsy and give the
  default.
\<close>

definition orDefault :: "('a::zero) option \<Rightarrow> 'a \<Rightarrow> 'a" where
  "orDefault v d = (case v of None \<Rightarrow> d | Some x \<Rightarrow> if x = 0 then d else x)"

text \<open>\<open>s || d\<close> on an optional string: \<open>undefined\<close> and the empty string are falsy.\<close>

definition orString :: "string option \<Rightarrow> string \<Rightarrow> string" where
  "orString v d = (case v of None \<Rightarrow> d | Some x \<Rightarrow> if x = [] then d else x)"

section \<open>Backend client: data\<close>

text \<open>
  The class \<open>EnterpriseBackendService\<close>. A payload is a JSON value; \<open>truthy\<close> is
  JavaScript's truthiness of one (\<open>if (cached)\<close>, \<open>if (response && ...)\<close>).
\<close>

datatype json =
    JNull
  | JBool bool
  | JNum real
  | JStr string
  | JArr "json list"
  | JObj "(string \<times> json) list"

fun truthy :: "json \<Rightarrow> bool" where
  "truthy JNull = False"
| "truthy (JBool b) = b"
| "truthy (JNum n) = (n \<noteq> 0)"
| "truthy (JStr s) = (s \<noteq> [])"
| "truthy (JArr xs) = True"
| "truthy (JObj kvs) = True"

text \<open>
  A thrown value: an \<open>Error\<close> with its message, or \<open>undefined\<close>, which only
  \<open>throw lastError\<close> after the loop of \<open>executeRequest\<close> could throw, had no attempt
  run.
\<close>

datatype js_error = Error string | Undefined

text \<open>
  What one \<open>fetch\<close> call gives: it rejects with an error (a network-level failure), kept
  as the error's message, or it resolves to a response with a status, a status text and a
  body, where \<open>response.json()\<close> either throws an error with a message or returns the
  parsed payload.
\<close>

datatype fetch_result =
    Rejected string
  | Response nat string "string + json"

datatype circuit_state = Closed | Open | HalfOpen

record circuit_breaker =
  cbState :: circuit_state
  cbFailures :: nat
  lastFailure :: "int option"

record cache_entry =
  cdata :: json
  expires :: int

record metrics =
  requests :: nat
  failures :: nat
  cacheHits :: nat
  cacheMisses :: nat
  averageResponseTime :: real

text \<open>
  The fields of the service that \<open>request\<close> and its helpers read or write. The cache is a
  JavaScript \<open>Map\<close>: an association list in insertion order with distinct keys.
  \<open>localToken\<close> is the \<open>auth_token\<close> item of \<open>localStorage\<close>, \<open>dispatched\<close> the names of
  the events given to \<open>window.dispatchEvent\<close>, oldest first. Times are milliseconds
  (\<open>Date.now()\<close>). The websocket fields are left out: \<open>request\<close> does not touch them.
\<close>

record backend =
  token :: "string option"
  localToken :: "string option"
  circuitBreaker :: circuit_breaker
  cache :: "(string \<times> cache_entry) list"
  metrics :: metrics
  dispatched :: "string list"

text \<open>The constants of the constructor: \<open>retryConfig\<close>, \<open>circuitBreaker\<close>, \<open>cacheConfig\<close>.\<close>

definition maxRetries :: nat where "maxRetries = 3"
definition baseDelay :: nat where "baseDelay = 1000"
definition maxDelay :: nat where "maxDelay = 10000"
definition failureThreshold :: nat where "failureThreshold = 5"
definition resetTimeout :: int where "resetTimeout = 60000"
definition defaultTTL :: int where "defaultTTL = 300000"
definition maxSize :: nat where "maxSize = 1000"

definition newBackend :: "string option \<Rightarrow> backend" where
  "newBackend stored =
     \<lparr> token = stored, localToken = stored,
       circuitBreaker = \<lparr> cbState = Closed, cbFailures = 0, lastFailure = None \<rparr>,
       cache = [],
       metrics = \<lparr> requests = 0, failures = 0, cacheHits = 0, cacheMisses = 0,
         averageResponseTime = 0 \<rparr>,
       dispatched = [] \<rparr>"

text \<open>
  The \<open>options\<close> argument of \<open>request\<close>: the method, the query parameters (given as the
  text \<open>JSON.stringify\<close> makes of them) and the body.
\<close>

record request_options =
  optMethod :: "string option"
  optParams :: "string option"
  optBody :: "string option"

definition readShaped :: "request_options \<Rightarrow> bool" where
  "readShaped options =
     (optMethod options \<noteq> Some ''POST'' \<and> optMethod options \<noteq> Some ''PUT''
      \<and> optMethod options \<noteq> Some ''DELETE'')"

section \<open>Backend client: cache, metrics, circuit breaker\<close>

definition getCacheKey :: "string \<Rightarrow> request_options \<Rightarrow> string" where
  "getCacheKey endpoint options =
     endpoint @ ''_'' @ (case optParams options of None \<Rightarrow> ''{}'' | Some p \<Rightarrow> p)"

definition getFromCache :: "backend \<Rightarrow> int \<Rightarrow> string \<Rightarrow> json option \<times> backend" where
  "getFromCache s now key =
     (case map_of (cache s) key of
        None \<Rightarrow> (None, s)
      | Some cached \<Rightarrow>
          if now > expires cached then (None, s\<lparr> cache := AList.delete key (cache s) \<rparr>)
          else (Some (cdata cached), s))"

definition setCache :: "backend \<Rightarrow> int \<Rightarrow> string \<Rightarrow> json \<Rightarrow> backend" where
  "setCache s now key d =
     (let evicted =
        (if length (cache s) \<ge> maxSize
         then (case cache s of [] \<Rightarrow> [] | (firstKey, e) # rest \<Rightarrow> AList.delete firstKey (cache s))
         else cache s)
      in s\<lparr> cache := AList.update key \<lparr> cdata = d, expires = now + defaultTTL \<rparr> evicted \<rparr>)"

definition clearCache :: "backend \<Rightarrow> backend" where
  "clearCache s = s\<lparr> cache := [] \<rparr>"

definition updateMetrics :: "backend \<Rightarrow> bool \<Rightarrow> real \<Rightarrow> backend" where
  "updateMetrics s success responseTime =
     (let m = metrics s;
          n = requests m + 1;
          f = (if success then failures m else failures m + 1)
      in s\<lparr> metrics := m\<lparr> requests := n, failures := f,
           averageResponseTime :=
             (averageResponseTime m * real (n - 1) + responseTime) / real n \<rparr> \<rparr>)"

definition handleRequestFailure :: "backend \<Rightarrow> int \<Rightarrow> backend" where
  "handleRequestFailure s now =
     (let cb = circuitBreaker s;
          n = cbFailures cb + 1;
          cb1 = cb\<lparr> cbFailures := n, lastFailure := Some now \<rparr>;
          cb2 = (if n \<ge> failureThreshold then cb1\<lparr> cbState := Open \<rparr> else cb1)
      in updateMetrics (s\<lparr> circuitBreaker := cb2 \<rparr>) False 0)"

definition handleUnauthorized :: "backend \<Rightarrow> backend" where
  "handleUnauthorized s =
     s\<lparr> token := None, localToken := None, dispatched := dispatched s @ [''auth:required''] \<rparr>"

section \<open>Backend client: executeRequest\<close>

definition shouldRetry :: "js_error \<Rightarrow> bool" where
  "shouldRetry e =
     (case e of
        Error m \<Rightarrow>
          strIncludes m ''Failed to fetch'' \<or> strIncludes m ''500'' \<or> strIncludes m ''502''
          \<or> strIncludes m ''503'' \<or> strIncludes m ''504''
      | Undefined \<Rightarrow> False)"

definition responseOk :: "nat \<Rightarrow> bool" where
  "responseOk status = (200 \<le> status \<and> status \<le> 299)"

text \<open>The body of the \<open>try\<close> block of one loop iteration, given what \<open>fetch\<close> gave.\<close>

definition attemptRequest :: "backend \<Rightarrow> fetch_result \<Rightarrow> (js_error + json) \<times> backend" where
  "attemptRequest s r =
     (case r of
        Rejected m \<Rightarrow> (Inl (Error m), s)
      | Response status statusText body \<Rightarrow>
          if status = 401 then (Inl (Error ''Authentication required''), handleUnauthorized s)
          else if \<not> responseOk status
          then (Inl (Error (''HTTP '' @ toDecimal status @ '': '' @ statusText)), s)
          else (case body of Inl m \<Rightarrow> (Inl (Error m), s) | Inr d \<Rightarrow> (Inr d, s)))"

definition is401 :: "fetch_result \<Rightarrow> bool" where
  "is401 r = (case r of Rejected m \<Rightarrow> False | Response status statusText body \<Rightarrow> status = 401)"

definition retryDelay :: "nat \<Rightarrow> nat" where
  "retryDelay attempt = min (baseDelay * 2 ^ attempt) maxDelay"

text \<open>
  What a run of \<open>executeRequest\<close> leaves: the value returned or thrown, the service, the
  results of the \<open>fetch\<close> calls it made in order, and the delays it slept.
\<close>

record execution =
  exResult :: "js_error + json"
  exState :: backend
  exAttempts :: "fetch_result list"
  exSleeps :: "nat list"

text \<open>
  The \<open>for\<close> loop of \<open>executeRequest\<close>. \<open>net i\<close> is what the \<open>fetch\<close> of attempt \<open>i\<close>
  gives. The request headers are not modelled: they only reach the server, whose answers
  \<open>net\<close> gives.
\<close>

function executeLoop ::
  "(nat \<Rightarrow> fetch_result) \<Rightarrow> nat \<Rightarrow> js_error option \<Rightarrow> backend \<Rightarrow> fetch_result list \<Rightarrow> nat list
   \<Rightarrow> execution" where
  "executeLoop net attempt lastError s tr sl =
     (if attempt \<le> maxRetries then
        (case attemptRequest s (net attempt) of
           (Inr d, s1) \<Rightarrow>
             \<lparr> exResult = Inr d, exState = s1, exAttempts = tr @ [net attempt], exSleeps = sl \<rparr>
         | (Inl e, s1) \<Rightarrow>
             if attempt < maxRetries \<and> shouldRetry e
             then executeLoop net (attempt + 1) (Some e) s1 (tr @ [net attempt])
                    (sl @ [retryDelay attempt])
             else \<lparr> exResult = Inl e, exState = s1, exAttempts = tr @ [net attempt],
                    exSleeps = sl \<rparr>)
      else \<lparr> exResult = Inl (case lastError of None \<Rightarrow> Undefined | Some e \<Rightarrow> e),
             exState = s, exAttempts = tr, exSleeps = sl \<rparr>)"
  by pat_completeness auto
termination
  by (relation "measure (\<lambda>(net, attempt, lastError, s, tr, sl). maxRetries + 1 - attempt)") auto

declare executeLoop.simps [simp del]

definition executeRequest :: "backend \<Rightarrow> (nat \<Rightarrow> fetch_result) \<Rightarrow> execution" where
  "executeRequest s net = executeLoop net 0 None s [] []"

section \<open>Backend client: request\<close>

text \<open>
  \<open>request\<close> runs in two parts with the awaited \<open>executeRequest\<close> between them.
  \<open>requestEnter\<close> is the part that runs at once when \<open>request\<close> is called: the cache
  lookup and the circuit-breaker check, up to the call of \<open>executeRequest\<close> (whose first
  \<open>fetch\<close> is issued in the same turn). It serves the call from the cache, refuses it, or
  admits it to the network.
\<close>

datatype entered =
    Served json backend
  | Refused js_error backend
  | Admitted backend

definition consultCache :: "backend \<Rightarrow> int \<Rightarrow> string \<Rightarrow> json option \<times> backend" where
  "consultCache s now key =
     (case getFromCache s now key of
        (Some d, s1) \<Rightarrow>
          if truthy d then (Some d, s1\<lparr> metrics := (metrics s1)\<lparr> cacheHits := cacheHits (metrics s1) + 1 \<rparr> \<rparr>)
          else (None, s1\<lparr> metrics := (metrics s1)\<lparr> cacheMisses := cacheMisses (metrics s1) + 1 \<rparr> \<rparr>)
      | (None, s1) \<Rightarrow>
          (None, s1\<lparr> metrics := (metrics s1)\<lparr> cacheMisses := cacheMisses (metrics s1) + 1 \<rparr> \<rparr>))"

text \<open>
  \<open>Date.now() - this.circuitBreaker.lastFailure\<close>; in the subtraction \<open>null\<close> counts
  as 0.
\<close>

definition sinceLastFailure :: "backend \<Rightarrow> int \<Rightarrow> int" where
  "sinceLastFailure s now =
     now - (case lastFailure (circuitBreaker s) of None \<Rightarrow> 0 | Some t \<Rightarrow> t)"

definition checkCircuit :: "backend \<Rightarrow> int \<Rightarrow> entered" where
  "checkCircuit s now =
     (let cb = circuitBreaker s in
      if cbState cb = Open then
        (if sinceLastFailure s now < resetTimeout
         then Refused (Error ''Circuit breaker is open - service temporarily unavailable'') s
         else Admitted (s\<lparr> circuitBreaker := cb\<lparr> cbState := HalfOpen \<rparr> \<rparr>))
      else Admitted s)"

definition requestEnter :: "backend \<Rightarrow> int \<Rightarrow> string \<Rightarrow> request_options \<Rightarrow> entered" where
  "requestEnter s now endpoint options =
     (let cacheKey = getCacheKey endpoint options in
      if readShaped options then
        (case consultCache s now cacheKey of
           (Some d, s1) \<Rightarrow> Served d s1
         | (None, s1) \<Rightarrow> checkCircuit s1 now)
      else checkCircuit s now)"

definition isServed :: "entered \<Rightarrow> bool" where
  "isServed en = (case en of Served d s \<Rightarrow> True | _ \<Rightarrow> False)"

text \<open>
  \<open>requestSettle\<close> is the rest of \<open>request\<close>: \<open>executeRequest\<close> and what follows its
  result, at time \<open>now\<close> with measured response time \<open>responseTime\<close>.
\<close>

record reply =
  rResult :: "js_error + json"
  rState :: backend
  rAttempts :: "fetch_result list"
  rSleeps :: "nat list"

definition closeIfHalfOpen :: "backend \<Rightarrow> backend" where
  "closeIfHalfOpen s =
     (if cbState (circuitBreaker s) = HalfOpen
      then s\<lparr> circuitBreaker := (circuitBreaker s)\<lparr> cbState := Closed, cbFailures := 0 \<rparr> \<rparr>
      else s)"

definition requestSettle ::
  "backend \<Rightarrow> int \<Rightarrow> real \<Rightarrow> string \<Rightarrow> request_options \<Rightarrow> (nat \<Rightarrow> fetch_result) \<Rightarrow> reply" where
  "requestSettle s now responseTime endpoint options net =
     (let cacheKey = getCacheKey endpoint options;
          ex = executeRequest s net
      in case exResult ex of
           Inr response \<Rightarrow>
             (let s1 = closeIfHalfOpen (exState ex);
                  s2 = (if truthy response \<and> readShaped options
                        then setCache s1 now cacheKey response else s1);
                  s3 = updateMetrics s2 True responseTime
              in \<lparr> rResult = Inr response, rState = s3, rAttempts = exAttempts ex,
                   rSleeps = exSleeps ex \<rparr>)
         | Inl e \<Rightarrow>
             \<lparr> rResult = Inl e, rState = handleRequestFailure (exState ex) now,
               rAttempts = exAttempts ex, rSleeps = exSleeps ex \<rparr>)"

text \<open>
  A call of \<open>request\<close> that no other call interleaves with: entered at time \<open>t0\<close>, settled
  at time \<open>t1\<close>.
\<close>

definition request ::
  "backend \<Rightarrow> int \<Rightarrow> int \<Rightarrow> real \<Rightarrow> string \<Rightarrow> request_options \<Rightarrow> (nat \<Rightarrow> fetch_result) \<Rightarrow> reply" where
  "request s t0 t1 responseTime endpoint options net =
     (case requestEnter s t0 endpoint options of
        Served d s1 \<Rightarrow> \<lparr> rResult = Inr d, rState = s1, rAttempts = [], rSleeps = [] \<rparr>
      | Refused e s1 \<Rightarrow> \<lparr> rResult = Inl e, rState = s1, rAttempts = [], rSleeps = [] \<rparr>
      | Admitted s1 \<Rightarrow> requestSettle s1 t1 responseTime endpoint options net)"

section \<open>Backend client: API methods\<close>

text \<open>
  The wrappers for alerts and cameras. \<open>params\<close> and \<open>body\<close> are the texts
  \<open>JSON.stringify\<close> makes of the arguments (\<open>{}\<close> for \<open>getAlerts()\<close> without
  arguments).
\<close>

definition getAlerts ::
  "backend \<Rightarrow> int \<Rightarrow> int \<Rightarrow> real \<Rightarrow> string \<Rightarrow> (nat \<Rightarrow> fetch_result) \<Rightarrow> reply" where
  "getAlerts s t0 t1 responseTime params net =
     request s t0 t1 responseTime ''/alerts''
       \<lparr> optMethod = None, optParams = Some params, optBody = None \<rparr> net"

definition createAlert ::
  "backend \<Rightarrow> int \<Rightarrow> int \<Rightarrow> real \<Rightarrow> string \<Rightarrow> (nat \<Rightarrow> fetch_result) \<Rightarrow> reply" where
  "createAlert s t0 t1 responseTime body net =
     request s t0 t1 responseTime ''/alerts''
       \<lparr> optMethod = Some ''POST'', optParams = None, optBody = Some body \<rparr> net"

definition getCameras ::
  "backend \<Rightarrow> int \<Rightarrow> int \<Rightarrow> real \<Rightarrow> (nat \<Rightarrow> fetch_result) \<Rightarrow> reply" where
  "getCameras s t0 t1 responseTime net =
     request s t0 t1 responseTime ''/cameras''
       \<lparr> optMethod = None, optParams = None, optBody = None \<rparr> net"

definition addCamera ::
  "backend \<Rightarrow> int \<Rightarrow> int \<Rightarrow> real \<Rightarrow> string \<Rightarrow> (nat \<Rightarrow> fetch_result) \<Rightarrow> reply" where
  "addCamera s t0 t1 responseTime body net =
     request (clearCache s) t0 t1 responseTime ''/cameras''
       \<lparr> optMethod = Some ''POST'', optParams = None, optBody = Some body \<rparr> net"

definition updateCamera ::
  "backend \<Rightarrow> int \<Rightarrow> int \<Rightarrow> real \<Rightarrow> string \<Rightarrow> string \<Rightarrow> (nat \<Rightarrow> fetch_result) \<Rightarrow> reply" where
  "updateCamera s t0 t1 responseTime cameraId body net =
     request (clearCache s) t0 t1 responseTime (''/cameras/'' @ cameraId)
       \<lparr> optMethod = Some ''PUT'', optParams = None, optBody = Some body \<rparr> net"

definition deleteCamera ::
  "backend \<Rightarrow> int \<Rightarrow> int \<Rightarrow> real \<Rightarrow> string \<Rightarrow> (nat \<Rightarrow> fetch_result) \<Rightarrow> reply" where
  "deleteCamera s t0 t1 responseTime cameraId net =
     request (clearCache s) t0 t1 responseTime (''/cameras/'' @ cameraId)
       \<lparr> optMethod = Some ''DELETE'', optParams = None, optBody = None \<rparr> net"

section \<open>Backend client: interleaved calls\<close>

text \<open>
  The service runs on one event loop: calls of \<open>request\<close> that are pending at the same
  time interleave at the \<open>await\<close>. An event is either a caller entering \<open>request\<close>
  (\<open>Call\<close>: \<open>requestEnter\<close> runs) or an admitted call finishing (\<open>Finish\<close>:
  \<open>requestSettle\<close> runs). \<open>run\<close> plays a sequence of events and lists what each did.
\<close>

datatype event =
    Call int string request_options
  | Finish int real string request_options "nat \<Rightarrow> fetch_result"

datatype outcome =
    CacheHit json
  | FastFail js_error
  | Sent
  | Success json
  | Failure js_error

definition step :: "backend \<Rightarrow> event \<Rightarrow> outcome \<times> backend" where
  "step s ev =
     (case ev of
        Call now endpoint options \<Rightarrow>
          (case requestEnter s now endpoint options of
             Served d s1 \<Rightarrow> (CacheHit d, s1)
           | Refused e s1 \<Rightarrow> (FastFail e, s1)
           | Admitted s1 \<Rightarrow> (Sent, s1))
      | Finish now responseTime endpoint options net \<Rightarrow>
          (let r = requestSettle s now responseTime endpoint options net
           in case rResult r of
                Inr d \<Rightarrow> (Success d, rState r)
              | Inl e \<Rightarrow> (Failure e, rState r)))"

fun run :: "backend \<Rightarrow> event list \<Rightarrow> outcome list \<times> backend" where
  "run s [] = ([], s)"
| "run s (ev # evs) =
     (case step s ev of (out, s1) \<Rightarrow>
        (case run s1 evs of (outs, s2) \<Rightarrow> (out # outs, s2)))"

text \<open>
  The number of failed calls since the last call that succeeded: a fast-fail and a failed
  request count, a call that is only sent does not, a cache hit or a successful request
  starts the count again.
\<close>

definition isFailure :: "outcome \<Rightarrow> bool" where
  "isFailure out = (case out of FastFail e \<Rightarrow> True | Failure e \<Rightarrow> True | _ \<Rightarrow> False)"

definition streakStep :: "nat \<Rightarrow> outcome \<Rightarrow> nat" where
  "streakStep n out =
     (case out of
        CacheHit d \<Rightarrow> 0
      | Success d \<Rightarrow> 0
      | Sent \<Rightarrow> n
      | FastFail e \<Rightarrow> n + 1
      | Failure e \<Rightarrow> n + 1)"

definition streak :: "outcome list \<Rightarrow> nat" where
  "streak outs = foldl streakStep 0 outs"

text \<open>
  What holds of the breaker in every state the service reaches: it is closed, or at
  least \<open>failureThreshold\<close> failures are counted.
\<close>

definition breakerOk :: "backend \<Rightarrow> bool" where
  "breakerOk s =
     (cbState (circuitBreaker s) = Closed \<or> failureThreshold \<le> cbFailures (circuitBreaker s))"

section \<open>Backend client: scenarios\<close>

text \<open>
  Concrete inputs for the facts below. \<open>offline\<close> is a network on which every \<open>fetch\<close>
  rejects, \<open>healthy\<close> one that answers 200 with a payload. \<open>tripScenario\<close> is a
  successful read of \<open>/system/health\<close> followed by five calls of \<open>/alerts\<close> that fail
  on the offline network, the last of them at time 48000; \<open>tripped\<close> is the service after
  it.
\<close>

definition getOptions :: request_options where
  "getOptions = \<lparr> optMethod = None, optParams = None, optBody = None \<rparr>"

definition offline :: "nat \<Rightarrow> fetch_result" where
  "offline i = Rejected ''Failed to fetch''"

definition healthy :: "nat \<Rightarrow> fetch_result" where
  "healthy i = Response 200 ''OK'' (Inr (JObj [(''status'', JStr ''healthy'')]))"

definition failedCall :: "int \<Rightarrow> event list" where
  "failedCall t =
     [Call t ''/alerts'' getOptions, Finish (t + 7000) 7000 ''/alerts'' getOptions offline]"

definition tripScenario :: "event list" where
  "tripScenario =
     [Call 0 ''/system/health'' getOptions, Finish 100 100 ''/system/health'' getOptions healthy]
     @ concat (map failedCall [1000, 11000, 21000, 31000, 41000])"

definition tripped :: backend where
  "tripped = snd (run (newBackend None) tripScenario)"

text \<open>
  More networks: \<open>notImplemented\<close> answers 501 every time, \<open>flaky\<close> answers 503 twice
  and then 200 with a payload, \<open>unauthorized\<close> answers 401. \<open>alertsBefore\<close> and
  \<open>alertsAfter\<close> are the server's answers to \<open>GET /alerts\<close> before and after an alert
  is created, \<open>created\<close> its answer to the \<open>POST\<close>.
\<close>

definition notImplemented :: "nat \<Rightarrow> fetch_result" where
  "notImplemented i = Response 501 ''Not Implemented'' (Inr JNull)"

definition flaky :: "nat \<Rightarrow> fetch_result" where
  "flaky i =
     (if i < 2 then Response 503 ''Service Unavailable'' (Inr JNull)
      else Response 200 ''OK'' (Inr (JObj [(''status'', JStr ''healthy'')])))"

definition unauthorized :: "nat \<Rightarrow> fetch_result" where
  "unauthorized i = Response 401 ''Unauthorized'' (Inr JNull)"

definition alertsBefore :: "nat \<Rightarrow> fetch_result" where
  "alertsBefore i = Response 200 ''OK'' (Inr (JArr [JStr ''alert-1'']))"

definition alertsAfter :: "nat \<Rightarrow> fetch_result" where
  "alertsAfter i = Response 200 ''OK'' (Inr (JArr [JStr ''alert-1'', JStr ''alert-2'']))"

definition created :: "nat \<Rightarrow> fetch_result" where
  "created i = Response 201 ''Created'' (Inr (JStr ''alert-2''))"

text \<open>
  What holds of a run of \<open>executeRequest\<close> that received a 401 response: the error is
  \<open>Authentication required\<close>, the token is gone, and the 401 response is the last
  attempt and the only one of its kind.
\<close>

definition after401 :: "execution \<Rightarrow> bool" where
  "after401 ex =
     (exResult ex = Inl (Error ''Authentication required'')
      \<and> token (exState ex) = None \<and> localToken (exState ex) = None
      \<and> exAttempts ex \<noteq> [] \<and> is401 (last (exAttempts ex))
      \<and> \<not> list_ex is401 (butlast (exAttempts ex)))"

section \<open>Camera service: capabilities and the resolution ladder\<close>

text \<open>
  What \<open>track.getCapabilities()\<close> reports, as far as \<open>productionCameraService.js\<close>
  reads it. A bound is an object with optional \<open>min\<close> and \<open>max\<close>; widths and heights
  are whole numbers, frame rates are real numbers. \<open>torch\<close>, \<open>zoom\<close>, \<open>focusMode\<close> and
  \<open>whiteBalanceMode\<close> are only tested for truthiness and are kept as that truth value.
  The empty object \<open>{}\<close> that \<open>getDeviceCapabilities\<close> returns when probing fails is
  \<open>noCapabilities\<close>.
\<close>

record 'a bounds =
  bmin :: "'a option"
  bmax :: "'a option"

record track_settings =
  setWidth :: "nat option"
  setHeight :: "nat option"
  setFrameRate :: "real option"

record capabilities =
  capWidth :: "nat bounds option"
  capHeight :: "nat bounds option"
  capFrameRate :: "real bounds option"
  capFacingMode :: "string list option"
  capTorch :: bool
  capZoom :: bool
  capFocusMode :: bool
  capWhiteBalanceMode :: bool
  currentSettings :: "track_settings option"

definition noCapabilities :: capabilities where
  "noCapabilities = \<lparr> capWidth = None, capHeight = None, capFrameRate = None,
     capFacingMode = None, capTorch = False, capZoom = False, capFocusMode = False,
     capWhiteBalanceMode = False, currentSettings = None \<rparr>"

text \<open>The table \<open>standardResolutions\<close> of \<open>extractResolutions\<close>: width, height, label.\<close>

definition standardResolutions :: "(nat \<times> nat \<times> string) list" where
  "standardResolutions =
     [(3840, 2160, ''4K UHD''), (2560, 1440, ''1440p''), (1920, 1080, ''1080p''),
      (1280, 720, ''720p''), (854, 480, ''480p''), (640, 480, ''VGA'')]"

definition resolutionString :: "nat \<Rightarrow> nat \<Rightarrow> string" where
  "resolutionString w h = toDecimal w @ ''x'' @ toDecimal h"

definition extractResolutions :: "capabilities \<Rightarrow> string list" where
  "extractResolutions caps =
     (let resolutions =
        (case (capWidth caps, capHeight caps) of
           (Some cw, Some ch) \<Rightarrow>
             (let maxWidth = orDefault (bmax cw) 1920;
                  maxHeight = orDefault (bmax ch) 1080
              in map (\<lambda>(w, h, l). resolutionString w h)
                   (filter (\<lambda>(w, h, l). w \<le> maxWidth \<and> h \<le> maxHeight) standardResolutions))
         | _ \<Rightarrow> [])
      in if length resolutions > 0 then resolutions else [''1920x1080''])"

section \<open>Camera service: frame rates, features, connection medium\<close>

definition extractFrameRates :: "capabilities \<Rightarrow> real list" where
  "extractFrameRates caps =
     (case capFrameRate caps of
        Some fr \<Rightarrow>
          (let maxFps = orDefault (bmax fr) 30
           in (if maxFps \<ge> 60 then [60] else []) @ (if maxFps \<ge> 30 then [30] else [])
              @ (if maxFps \<ge> 24 then [24] else []) @ [15])
      | None \<Rightarrow> [30, 24, 15])"

text \<open>\<open>bound?.max >= n\<close>: false when the bound or its maximum is missing.\<close>

definition maxAtLeast :: "('a::linorder) bounds option \<Rightarrow> 'a \<Rightarrow> bool" where
  "maxAtLeast b n =
     (case b of None \<Rightarrow> False | Some r \<Rightarrow> (case bmax r of None \<Rightarrow> False | Some m \<Rightarrow> m \<ge> n))"

definition facingIncludes :: "capabilities \<Rightarrow> string \<Rightarrow> bool" where
  "facingIncludes caps m = (case capFacingMode caps of None \<Rightarrow> False | Some ms \<Rightarrow> m \<in> set ms)"

definition extractFeatures :: "capabilities \<Rightarrow> string" where
  "extractFeatures caps =
     (let features =
        (if maxAtLeast (capWidth caps) 1920 then [''HD''] else [])
        @ (if maxAtLeast (capWidth caps) 3840 then [''4K''] else [])
        @ (if maxAtLeast (capFrameRate caps) 60 then [''60fps''] else [])
        @ (if facingIncludes caps ''environment'' then [''Rear Camera''] else [])
        @ (if facingIncludes caps ''user'' then [''Front Camera''] else [])
        @ (if capTorch caps then [''Flash''] else [])
        @ (if capZoom caps then [''Zoom''] else [])
        @ (if capFocusMode caps then [''Auto Focus''] else [])
        @ (if capWhiteBalanceMode caps then [''White Balance''] else [])
      in if length features > 0 then joinWith '', '' features else ''Basic Video'')"

definition detectConnectionType :: "string \<Rightarrow> string" where
  "detectConnectionType deviceLabel =
     (let label = toLowerCase deviceLabel in
      if strIncludes label ''usb'' then ''USB''
      else if strIncludes label ''built-in'' \<or> strIncludes label ''integrated'' then ''Built-in''
      else if strIncludes label ''wireless'' \<or> strIncludes label ''wifi'' then ''WiFi''
      else if strIncludes label ''bluetooth'' then ''Bluetooth''
      else ''Unknown'')"

section \<open>Camera service: data\<close>

text \<open>
  The media layer. A stream is the list of its tracks (\<open>stream.getTracks()\<close>); a track
  has a kind, is live or ended (\<open>readyState\<close>), reports settings and capabilities, and
  carries the listeners registered for its \<open>ended\<close> event: each listener of the service
  is the closure \<open>() => this.handleStreamEnd(cameraId)\<close> and is kept as its \<open>cameraId\<close>.
  \<open>getUserMedia\<close> either rejects (with an error, kept as its message) or gives a new
  stream, described by a \<open>track_spec\<close> per track; its tracks start live and without
  listeners.
\<close>

datatype track_kind = Video | Audio

record track_spec =
  specKind :: track_kind
  specSettings :: track_settings
  specCapabilities :: capabilities

record media_track =
  trackKind :: track_kind
  trackLive :: bool
  trackSettings :: track_settings
  trackCapabilities :: capabilities
  endedListeners :: "string list"

definition newTrack :: "track_spec \<Rightarrow> media_track" where
  "newTrack sp = \<lparr> trackKind = specKind sp, trackLive = True, trackSettings = specSettings sp,
     trackCapabilities = specCapabilities sp, endedListeners = [] \<rparr>"

text \<open>
  \<open>MediaDeviceInfo\<close> as \<open>enumerateDevices\<close> lists it, together with what \<open>getUserMedia\<close>
  gives when \<open>getDeviceCapabilities\<close> probes that device.
\<close>

record device =
  devId :: string
  devKind :: string
  devLabel :: string
  devProbe :: "string + track_spec list"

text \<open>
  The \<open>cameraInfo\<close> object of \<open>processDevice\<close>. Times are kept as the clock reading the
  ISO string is made from.
\<close>

record camera_info =
  camId :: string
  camName :: string
  camType :: string
  camStatus :: string
  camDeviceId :: string
  camCapabilities :: capabilities
  camResolutions :: "string list"
  camFrameRates :: "real list"
  camFeatures :: string
  camConnection :: string
  lastSeen :: int
  lastConnected :: "int option"
  camCurrentSettings :: "track_settings option"
  lastDisconnected :: "int option"

text \<open>
  The \<open>options\<close> of \<open>connectToCamera\<close>. \<open>optResolution\<close> is the pair
  \<open>options.resolution.split('x').map(Number)\<close>, a part that is missing or not a number
  being \<open>None\<close>.
\<close>

record connect_options =
  optResolution :: "(nat option \<times> nat option) option"
  optFrameRate :: "real option"
  optFacingMode :: "string option"

text \<open>The \<open>video\<close> part of the constraints; every bound is an \<open>ideal\<close>, the device \<open>exact\<close>.\<close>

record video_constraints =
  conDeviceId :: string
  conWidth :: "nat option"
  conHeight :: "nat option"
  conFrameRate :: "real option"
  conFacingMode :: "string option"

text \<open>
  The connection object. \<open>connStream\<close> is the handle of its stream in the media layer and
  \<open>connVideoTrack\<close> the position of \<open>videoTrack\<close> among the stream's tracks. Every
  connection is made with a stream of its own, so the handle tells two connection objects
  apart. \<open>connAspect\<close> is the pair (width, height) the \<open>aspectRatio\<close> text is computed
  from, \<open>None\<close> standing for the default text.
\<close>

record connection =
  connCameraId :: string
  connStream :: nat
  connVideoTrack :: nat
  connSettings :: track_settings
  connAspect :: "(nat \<times> nat) option"
  connConstraints :: video_constraints
  connectedAt :: int
  isActive :: bool

text \<open>
  The service \<open>ProductionCameraService\<close>. The four maps are JavaScript \<open>Map\<close>s
  (association lists in insertion order). \<open>statusEvents\<close> lists what
  \<open>notifyStatusChange\<close> handed to the status callbacks (camera, status) and \<open>errorEvents\<close>
  what \<open>handleError\<close> handed to the error handlers (kind, error, camera), oldest first.
  \<open>streams\<close> is the media layer: every stream \<open>getUserMedia\<close> has opened, by handle;
  \<open>nextStream\<close> is the next free handle. \<open>permissionStatus\<close> and \<open>isInitialized\<close> are
  left out: the operations below do not touch them.
\<close>

record camera_service =
  connectedCameras :: "(string \<times> camera_info) list"
  activeStreams :: "(string \<times> connection) list"
  deviceCapabilities :: "(string \<times> capabilities) list"
  connectionStatus :: "(string \<times> string) list"
  statusEvents :: "(string \<times> string) list"
  errorEvents :: "(string \<times> js_error \<times> string option) list"
  streams :: "(nat \<times> media_track list) list"
  nextStream :: nat

definition newCameraService :: camera_service where
  "newCameraService = \<lparr> connectedCameras = [], activeStreams = [], deviceCapabilities = [],
     connectionStatus = [], statusEvents = [], errorEvents = [], streams = [], nextStream = 0 \<rparr>"

section \<open>Camera service: the media layer\<close>

definition openStream :: "camera_service \<Rightarrow> track_spec list \<Rightarrow> nat \<times> camera_service" where
  "openStream s specs =
     (nextStream s,
      s\<lparr> streams := AList.update (nextStream s) (map newTrack specs) (streams s),
         nextStream := nextStream s + 1 \<rparr>)"

definition getTracks :: "camera_service \<Rightarrow> nat \<Rightarrow> media_track list" where
  "getTracks s h = (case map_of (streams s) h of None \<Rightarrow> [] | Some ts \<Rightarrow> ts)"

text \<open>\<open>stream.getTracks().forEach(track => track.stop())\<close>.\<close>

definition stopTracks :: "camera_service \<Rightarrow> nat \<Rightarrow> camera_service" where
  "stopTracks s h =
     (case map_of (streams s) h of
        None \<Rightarrow> s
      | Some ts \<Rightarrow> s\<lparr> streams := AList.update h (map (\<lambda>t. t\<lparr> trackLive := False \<rparr>) ts) (streams s) \<rparr>)"

text \<open>The position of \<open>stream.getVideoTracks()[0]\<close> among the tracks, if there is one.\<close>

fun firstVideo :: "media_track list \<Rightarrow> nat option" where
  "firstVideo [] = None"
| "firstVideo (t # ts) =
     (if trackKind t = Video then Some 0 else map_option Suc (firstVideo ts))"

definition addEndedListener :: "camera_service \<Rightarrow> nat \<Rightarrow> nat \<Rightarrow> string \<Rightarrow> camera_service" where
  "addEndedListener s h i cameraId =
     (case map_of (streams s) h of
        None \<Rightarrow> s
      | Some ts \<Rightarrow>
          s\<lparr> streams := AList.update h
                (ts[i := (ts ! i)\<lparr> endedListeners := endedListeners (ts ! i) @ [cameraId] \<rparr>])
                (streams s) \<rparr>)"

section \<open>Camera service: notifications\<close>

definition notifyStatusChange :: "camera_service \<Rightarrow> string \<Rightarrow> string \<Rightarrow> camera_service" where
  "notifyStatusChange s cameraId status =
     s\<lparr> statusEvents := statusEvents s @ [(cameraId, status)] \<rparr>"

definition handleError ::
  "camera_service \<Rightarrow> string \<Rightarrow> js_error \<Rightarrow> string option \<Rightarrow> camera_service" where
  "handleError s kind e cameraId = s\<lparr> errorEvents := errorEvents s @ [(kind, e, cameraId)] \<rparr>"

definition setStatus :: "camera_service \<Rightarrow> string \<Rightarrow> string \<Rightarrow> camera_service" where
  "setStatus s cameraId status =
     s\<lparr> connectionStatus := AList.update cameraId status (connectionStatus s) \<rparr>"

section \<open>Camera service: discovery\<close>

definition getDeviceCapabilities ::
  "camera_service \<Rightarrow> string + track_spec list \<Rightarrow> capabilities \<times> camera_service" where
  "getDeviceCapabilities s probe =
     (case probe of
        Inl m \<Rightarrow> (noCapabilities, s)
      | Inr specs \<Rightarrow>
          (case openStream s specs of (h, s1) \<Rightarrow>
             (case firstVideo (getTracks s1 h) of
                None \<Rightarrow> (noCapabilities, s1)
              | Some i \<Rightarrow>
                  (let track = getTracks s1 h ! i
                   in ((trackCapabilities track)\<lparr> currentSettings := Some (trackSettings track) \<rparr>,
                       stopTracks s1 h)))))"

definition processDevice :: "camera_service \<Rightarrow> device \<Rightarrow> int \<Rightarrow> camera_service" where
  "processDevice s d now =
     (let deviceId = devId d;
          label = (if devLabel d = [] then ''Camera '' @ toDecimal (length (connectedCameras s) + 1)
                   else devLabel d)
      in case getDeviceCapabilities s (devProbe d) of (caps, s1) \<Rightarrow>
        (let cameraInfo = \<lparr> camId = deviceId, camName = label, camType = ''webcam'',
               camStatus = ''available'', camDeviceId = deviceId, camCapabilities = caps,
               camResolutions = extractResolutions caps, camFrameRates = extractFrameRates caps,
               camFeatures = extractFeatures caps,
               camConnection = detectConnectionType (devLabel d), lastSeen = now,
               lastConnected = None, camCurrentSettings = None, lastDisconnected = None \<rparr>
         in s1\<lparr> connectedCameras := AList.update deviceId cameraInfo (connectedCameras s1),
                deviceCapabilities := AList.update deviceId caps (deviceCapabilities s1),
                connectionStatus := AList.update deviceId ''disconnected'' (connectionStatus s1) \<rparr>))"

text \<open>
  \<open>discoverDevices\<close>, given what \<open>enumerateDevices\<close> gives: it throws what that call
  throws, with nothing changed, or returns the cameras of the rebuilt table.
\<close>

definition videoInputs :: "device list \<Rightarrow> device list" where
  "videoInputs devices = filter (\<lambda>d. devKind d = ''videoinput'') devices"

definition discoverDevices ::
  "camera_service \<Rightarrow> string + device list \<Rightarrow> int \<Rightarrow> (js_error + camera_info list) \<times> camera_service" where
  "discoverDevices s enumerated now =
     (case enumerated of
        Inl m \<Rightarrow> (Inl (Error m), s)
      | Inr devices \<Rightarrow>
          (let videoDevices = videoInputs devices;
               s1 = s\<lparr> connectedCameras := [], deviceCapabilities := [] \<rparr>;
               s2 = foldl (\<lambda>s d. processDevice s d now) s1 videoDevices
           in (Inr (map snd (connectedCameras s2)), s2)))"

definition getCameraStatus :: "camera_service \<Rightarrow> string \<Rightarrow> string" where
  "getCameraStatus s cameraId = orString (map_of (connectionStatus s) cameraId) ''unknown''"

definition isConnected :: "camera_service \<Rightarrow> string \<Rightarrow> bool" where
  "isConnected s cameraId = (map_of (activeStreams s) cameraId \<noteq> None)"

definition getCameraInfo :: "camera_service \<Rightarrow> string \<Rightarrow> camera_info option" where
  "getCameraInfo s cameraId = map_of (connectedCameras s) cameraId"

section \<open>Camera service: connect and disconnect\<close>

text \<open>
  \<open>buildConstraints\<close>. \<open>caps\<close> is \<open>this.deviceCapabilities.get(cameraId)\<close>; where the
  code reads a property of it while it is \<open>undefined\<close>, a \<open>TypeError\<close> is thrown.
\<close>

definition truthyNumber :: "('a::zero) option \<Rightarrow> bool" where
  "truthyNumber v = (case v of None \<Rightarrow> False | Some x \<Rightarrow> x \<noteq> 0)"

definition truthyString :: "string option \<Rightarrow> bool" where
  "truthyString v = (case v of None \<Rightarrow> False | Some x \<Rightarrow> x \<noteq> [])"

definition undefinedCapabilities :: js_error where
  "undefinedCapabilities = Error ''Cannot read properties of undefined''"

definition buildConstraints ::
  "string \<Rightarrow> connect_options \<Rightarrow> capabilities option \<Rightarrow> js_error + video_constraints" where
  "buildConstraints cameraId options caps =
     (let c0 = \<lparr> conDeviceId = cameraId, conWidth = None, conHeight = None,
                 conFrameRate = None, conFacingMode = None \<rparr>;
          r1 = (case optResolution options of
                  Some (w, h) \<Rightarrow>
                    if truthyNumber w \<and> truthyNumber h
                    then Inr (c0\<lparr> conWidth := w, conHeight := h \<rparr>) else Inr c0
                | None \<Rightarrow>
                    (case caps of
                       None \<Rightarrow> Inl undefinedCapabilities
                     | Some c \<Rightarrow>
                         (case (capWidth c, capHeight c) of
                            (Some cw, Some ch) \<Rightarrow>
                              Inr (c0\<lparr> conWidth := Some (orDefault (bmax cw) 1920),
                                       conHeight := Some (orDefault (bmax ch) 1080) \<rparr>)
                          | _ \<Rightarrow> Inr c0)))
      in case r1 of
           Inl e \<Rightarrow> Inl e
         | Inr c1 \<Rightarrow>
             (let r2 = (if truthyNumber (optFrameRate options)
                        then Inr (c1\<lparr> conFrameRate := optFrameRate options \<rparr>)
                        else (case caps of
                                None \<Rightarrow> Inl undefinedCapabilities
                              | Some c \<Rightarrow>
                                  (case capFrameRate c of
                                     Some fr \<Rightarrow> Inr (c1\<lparr> conFrameRate := Some (orDefault (bmax fr) 30) \<rparr>)
                                   | None \<Rightarrow> Inr c1)))
              in case r2 of
                   Inl e \<Rightarrow> Inl e
                 | Inr c2 \<Rightarrow>
                     (if truthyString (optFacingMode options)
                      then (case caps of
                              None \<Rightarrow> Inl undefinedCapabilities
                            | Some c \<Rightarrow>
                                if capFacingMode c \<noteq> None
                                then Inr (c2\<lparr> conFacingMode := optFacingMode options \<rparr>)
                                else Inr c2)
                      else Inr c2)))"

text \<open>
  The \<open>try\<close> block of \<open>connectToCamera\<close>; \<open>gum\<close> is what \<open>getUserMedia\<close> gives for the
  constraints built, \<open>now\<close> the clock. \<open>establish\<close> is its last part, from
  \<open>videoTrack.getSettings()\<close> on, for the stream \<open>h\<close> whose video track is at \<open>i\<close>.
\<close>

definition establish ::
  "camera_service \<Rightarrow> string \<Rightarrow> video_constraints \<Rightarrow> nat \<Rightarrow> nat \<Rightarrow> int
   \<Rightarrow> (js_error + connection) \<times> camera_service" where
  "establish s cameraId constraints h i now =
     (let actualSettings = trackSettings (getTracks s h ! i);
          conn = \<lparr> connCameraId = cameraId, connStream = h, connVideoTrack = i,
            connSettings = actualSettings,
            connAspect =
              (if truthyNumber (setWidth actualSettings) \<and> truthyNumber (setHeight actualSettings)
               then Some (the (setWidth actualSettings), the (setHeight actualSettings))
               else None),
            connConstraints = constraints, connectedAt = now, isActive = True \<rparr>;
          s3 = s\<lparr> activeStreams := AList.update cameraId conn (activeStreams s) \<rparr>;
          s4 = setStatus s3 cameraId ''connected'';
          s5 = s4\<lparr> connectedCameras :=
                 AList.map_entry cameraId
                   (\<lambda>c. c\<lparr> camStatus := ''online'', lastConnected := Some now,
                           camCurrentSettings := Some actualSettings \<rparr>)
                   (connectedCameras s4) \<rparr>;
          s6 = addEndedListener s5 h i cameraId
      in (Inr conn, notifyStatusChange s6 cameraId ''connected''))"

definition connectAttempt ::
  "camera_service \<Rightarrow> string \<Rightarrow> connect_options \<Rightarrow> string + track_spec list \<Rightarrow> int
   \<Rightarrow> (js_error + connection) \<times> camera_service" where
  "connectAttempt s cameraId options gum now =
     (if map_of (connectedCameras s) cameraId = None
      then (Inl (Error (''Camera '' @ cameraId @ '' not found'')), s)
      else
        (case map_of (activeStreams s) cameraId of
           Some existing \<Rightarrow> (Inr existing, s)
         | None \<Rightarrow>
             (let s1 = notifyStatusChange (setStatus s cameraId ''connecting'') cameraId ''connecting''
              in case buildConstraints cameraId options (map_of (deviceCapabilities s1) cameraId) of
                   Inl e \<Rightarrow> (Inl e, s1)
                 | Inr constraints \<Rightarrow>
                     (case gum of
                        Inl m \<Rightarrow> (Inl (Error m), s1)
                      | Inr specs \<Rightarrow>
                          (case openStream s1 specs of (h, s2) \<Rightarrow>
                             if length (getTracks s2 h) = 0
                             then (Inl (Error ''Failed to get valid media stream''), s2)
                             else
                               (case firstVideo (getTracks s2 h) of
                                  None \<Rightarrow> (Inl (Error ''No video track in stream''), s2)
                                | Some i \<Rightarrow> establish s2 cameraId constraints h i now))))))"

definition connectToCamera ::
  "camera_service \<Rightarrow> string \<Rightarrow> connect_options \<Rightarrow> string + track_spec list \<Rightarrow> int
   \<Rightarrow> (js_error + connection) \<times> camera_service" where
  "connectToCamera s cameraId options gum now =
     (case connectAttempt s cameraId options gum now of
        (Inr conn, s1) \<Rightarrow> (Inr conn, s1)
      | (Inl e, s1) \<Rightarrow>
          (Inl e,
           handleError
             (notifyStatusChange (setStatus s1 cameraId ''failed'') cameraId ''failed'')
             ''connection'' e (Some cameraId)))"

definition markAvailable :: "camera_service \<Rightarrow> string \<Rightarrow> int \<Rightarrow> camera_service" where
  "markAvailable s cameraId now =
     s\<lparr> connectedCameras :=
          AList.map_entry cameraId
            (\<lambda>c. c\<lparr> camStatus := ''available'', lastDisconnected := Some now \<rparr>)
            (connectedCameras s) \<rparr>"

definition disconnectCamera :: "camera_service \<Rightarrow> string \<Rightarrow> int \<Rightarrow> camera_service" where
  "disconnectCamera s cameraId now =
     (case map_of (activeStreams s) cameraId of
        None \<Rightarrow> s
      | Some conn \<Rightarrow>
          (let s1 = stopTracks s (connStream conn);
               s2 = s1\<lparr> activeStreams := AList.delete cameraId (activeStreams s1) \<rparr>;
               s3 = setStatus s2 cameraId ''disconnected'';
               s4 = markAvailable s3 cameraId now
           in notifyStatusChange s4 cameraId ''disconnected''))"

definition handleStreamEnd :: "camera_service \<Rightarrow> string \<Rightarrow> int \<Rightarrow> camera_service" where
  "handleStreamEnd s cameraId now =
     (let s1 = s\<lparr> activeStreams := AList.delete cameraId (activeStreams s) \<rparr>;
          s2 = setStatus s1 cameraId ''disconnected'';
          s3 = markAvailable s2 cameraId now
      in notifyStatusChange s3 cameraId ''stream_ended'')"

text \<open>
  The media layer ends track \<open>i\<close> of stream \<open>h\<close> (the device is unplugged, the permission
  revoked): a live track becomes ended and its \<open>ended\<close> listeners run. A track that has
  ended already, also by \<open>stop()\<close>, fires nothing.
\<close>

definition trackEnded :: "camera_service \<Rightarrow> nat \<Rightarrow> nat \<Rightarrow> int \<Rightarrow> camera_service" where
  "trackEnded s h i now =
     (case map_of (streams s) h of
        None \<Rightarrow> s
      | Some ts \<Rightarrow>
          if i < length ts \<and> trackLive (ts ! i)
          then (let s1 = s\<lparr> streams :=
                           AList.update h (ts[i := (ts ! i)\<lparr> trackLive := False \<rparr>]) (streams s) \<rparr>
                in foldl (\<lambda>s cameraId. handleStreamEnd s cameraId now) s1 (endedListeners (ts ! i)))
          else s)"

text \<open>
  What the two ways of tearing a connection down are compared on: the connection map, the
  status map, the device table and the streams of the media layer.
\<close>

definition teardownState ::
  "camera_service \<Rightarrow> (string \<times> connection) list \<times> (string \<times> string) list
     \<times> (string \<times> camera_info) list \<times> (nat \<times> media_track list) list" where
  "teardownState s = (activeStreams s, connectionStatus s, connectedCameras s, streams s)"

definition allStopped :: "camera_service \<Rightarrow> nat \<Rightarrow> bool" where
  "allStopped s h = list_all (\<lambda>t. \<not> trackLive t) (getTracks s h)"

section \<open>Camera service: connectToCamera across its await\<close>



definition connectFailed :: "camera_service \<Rightarrow> string \<Rightarrow> js_error \<Rightarrow> camera_service" where
  "connectFailed s cameraId e =
     handleError (notifyStatusChange (setStatus s cameraId ''failed'') cameraId ''failed'')
       ''connection'' e (Some cameraId)"



section \<open>Camera service: live streams per device\<close>

text \<open>
  A stream that \<open>connectToCamera\<close> made into a connection for a device carries the
  \<open>ended\<close> listener of that device on its video track. \<open>listening ts\<close> lists the live
  tracks of a stream that carry listeners, as pairs of position and device;
  \<open>liveStreams s c\<close> are the streams of the media layer on which device \<open>c\<close> has a live
  track of its own: the active connections made for \<open>c\<close>. \<open>streamsOwned\<close> says that every
  such track is the video track of the connection the map holds for its device (and that
  the handles in use are distinct and below the next free one).
\<close>

definition listening :: "media_track list \<Rightarrow> (nat \<times> string) list" where
  "listening ts =
     concat (map (\<lambda>(j, t). if trackLive t then map (Pair j) (endedListeners t) else [])
       (enumerate 0 ts))"

definition connectionOf :: "camera_service \<Rightarrow> string \<Rightarrow> (nat \<times> nat) option" where
  "connectionOf s c =
     map_option (\<lambda>conn. (connStream conn, connVideoTrack conn)) (map_of (activeStreams s) c)"


definition streamsOwned :: "camera_service \<Rightarrow> bool" where
  "streamsOwned s =
     (distinct (map fst (streams s))
      \<and> list_all
          (\<lambda>(h, ts). h < nextStream s
             \<and> list_all (\<lambda>(j, c). connectionOf s c = Some (h, j)) (listening ts))
          (streams s))"

section \<open>Camera service: scenarios\<close>

text \<open>
  Concrete inputs for the facts below: a full-HD USB webcam \<open>camA\<close> whose stream has one
  video track; the service after discovering it (\<open>svcDiscovered\<close>), after then connecting
  to it (\<open>svcConnected\<close>), and after a further discovery pass that lists the camera again
  (\<open>svcRediscovered\<close>) or lists no device (\<open>svcUnlisted\<close>).
\<close>

definition webcamCaps :: capabilities where
  "webcamCaps = noCapabilities \<lparr>
     capWidth := Some \<lparr> bmin = Some 1, bmax = Some 1920 \<rparr>,
     capHeight := Some \<lparr> bmin = Some 1, bmax = Some 1080 \<rparr>,
     capFrameRate := Some \<lparr> bmin = Some 1, bmax = Some 30 \<rparr> \<rparr>"

definition webcamTrack :: track_spec where
  "webcamTrack = \<lparr> specKind = Video,
     specSettings = \<lparr> setWidth = Some 1920, setHeight = Some 1080, setFrameRate = Some 30 \<rparr>,
     specCapabilities = webcamCaps \<rparr>"

definition camA :: device where
  "camA = \<lparr> devId = ''cam-A'', devKind = ''videoinput'', devLabel = ''USB Camera'',
     devProbe = Inr [webcamTrack] \<rparr>"

definition noOptions :: connect_options where
  "noOptions = \<lparr> optResolution = None, optFrameRate = None, optFacingMode = None \<rparr>"

definition svcDiscovered :: camera_service where
  "svcDiscovered = snd (discoverDevices newCameraService (Inr [camA]) 1000)"

definition svcConnected :: camera_service where
  "svcConnected = snd (connectToCamera svcDiscovered ''cam-A'' noOptions (Inr [webcamTrack]) 2000)"

definition svcRediscovered :: camera_service where
  "svcRediscovered = snd (discoverDevices svcConnected (Inr [camA]) 3000)"


text \<open>
  The table entry \<open>discoverDevices\<close> makes for \<open>camA\<close> at time 1000, and the connection
  \<open>connectToCamera\<close> makes for it at time 2000 (its stream is the second one opened, after
  the probe of the discovery pass).
\<close>

definition camAInfo :: camera_info where
  "camAInfo = \<lparr> camId = ''cam-A'', camName = ''USB Camera'', camType = ''webcam'',
     camStatus = ''available'', camDeviceId = ''cam-A'',
     camCapabilities = webcamCaps \<lparr> currentSettings := Some (specSettings webcamTrack) \<rparr>,
     camResolutions = [''1920x1080'', ''1280x720'', ''854x480'', ''640x480''],
     camFrameRates = [30, 24, 15], camFeatures = ''HD'', camConnection = ''USB'',
     lastSeen = 1000, lastConnected = None, camCurrentSettings = None,
     lastDisconnected = None \<rparr>"

definition camAConnection :: connection where
  "camAConnection = \<lparr> connCameraId = ''cam-A'', connStream = 1, connVideoTrack = 0,
     connSettings = specSettings webcamTrack, connAspect = Some (1920, 1080),
     connConstraints = \<lparr> conDeviceId = ''cam-A'', conWidth = Some 1920, conHeight = Some 1080,
       conFrameRate = Some 30, conFacingMode = None \<rparr>,
     connectedAt = 2000, isActive = True \<rparr>"


section \<open>Detection service: data\<close>

text \<open>
  \<open>RealTimeDetectionService.handleDetectionResults\<close>. A candidate is one element of
  \<open>results.alerts\<close>. Its location is whatever the detector put there, a text or an
  object such as a point or a box; in a template literal an object reads
  \<open>[object Object]\<close>.
\<close>

datatype location = LocText string | LocObject "(string \<times> real) list"

definition locTruthy :: "location option \<Rightarrow> bool" where
  "locTruthy l =
     (case l of None \<Rightarrow> False | Some (LocText t) \<Rightarrow> t \<noteq> [] | Some (LocObject kvs) \<Rightarrow> True)"

definition locString :: "location \<Rightarrow> string" where
  "locString l = (case l of LocText t \<Rightarrow> t | LocObject kvs \<Rightarrow> ''[object Object]'')"

record candidate =
  alType :: string
  alLocation :: "location option"
  alConfidence :: real
  alPersonCount :: "nat option"
  alDescription :: string
  alSeverity :: "string option"

text \<open>The \<open>alertData\<close> object, and the row \<open>SupabaseService.createAlert\<close> inserts for it.\<close>

record alert_data =
  alert_id :: string
  event_type :: string
  confidence :: real
  timestamp :: int
  frame_number :: nat
  person_count :: nat
  description :: string
  location :: location
  severity :: string

record system_log =
  logLevel :: string
  logMessage :: string
  logModule :: string
  logConfidence :: real
  logFrameNumber :: nat
  logPersonCount :: "nat option"

text \<open>
  The service and the store behind \<open>SupabaseService\<close>: the frame counter, the cooldown
  map, and the rows inserted so far into the tables \<open>alerts\<close> and \<open>system_logs\<close>.
\<close>

record detection =
  frameCount :: nat
  alertCooldowns :: "(string \<times> int) list"
  alertsTable :: "alert_data list"
  systemLogs :: "system_log list"

definition cooldownPeriod :: int where "cooldownPeriod = 5000"

text \<open>
  One candidate as the loop meets it: the candidate, the clock when the loop reaches it
  (\<open>Date.now()\<close>; the \<open>timestamp\<close> of the alert is taken from the same reading), and
  what the store does if asked to insert its alert and its log
  entry (\<open>None\<close>: the insert succeeds; a message: the call throws an error with it).
\<close>

record arrival =
  cand :: candidate
  arrivedAt :: int
  storeAlert :: "string option"
  storeLog :: "string option"

text \<open>
  What became of a candidate: dropped by the cooldown, persisted and logged, its insert
  failed, or persisted with the log entry failing.
\<close>

datatype disposition = Skipped | Created | CreateFailed js_error | LogFailed js_error

section \<open>Detection service: handleDetectionResults\<close>

definition showInt :: "int \<Rightarrow> string" where
  "showInt i = (if i < 0 then ''-'' @ toDecimal (nat (- i)) else toDecimal (nat i))"

definition alertKey :: "candidate \<Rightarrow> string" where
  "alertKey a =
     alType a @ ''_''
     @ (if locTruthy (alLocation a) then locString (the (alLocation a)) else ''unknown'')"

definition lastAlertTime :: "detection \<Rightarrow> string \<Rightarrow> int" where
  "lastAlertTime s key = orDefault (map_of (alertCooldowns s) key) 0"

definition makeAlertData :: "detection \<Rightarrow> nat option \<Rightarrow> candidate \<Rightarrow> int \<Rightarrow> alert_data" where
  "makeAlertData s statsPersonCount a now =
     \<lparr> alert_id = ''live_'' @ showInt now @ ''_'' @ toDecimal (frameCount s),
       event_type = alType a,
       confidence = alConfidence a,
       timestamp = now,
       frame_number = frameCount s,
       person_count =
         (if truthyNumber (alPersonCount a) then the (alPersonCount a)
          else if truthyNumber statsPersonCount then the statsPersonCount else 1),
       description = alDescription a,
       location = (if locTruthy (alLocation a) then the (alLocation a) else LocText ''Live Camera''),
       severity = orString (alSeverity a) ''medium'' \<rparr>"

text \<open>
  The row \<open>SupabaseService.createAlert\<close> inserts: its defaults for a missing frame
  number, person count, location and severity.
\<close>

definition insertedRow :: "alert_data \<Rightarrow> alert_data" where
  "insertedRow d =
     d\<lparr> person_count := (if person_count d = 0 then 1 else person_count d),
        location := (if locTruthy (Some (location d)) then location d
                     else LocText ''Unknown Location''),
        severity := (if severity d = [] then ''medium'' else severity d) \<rparr>"

definition makeLog :: "detection \<Rightarrow> nat option \<Rightarrow> candidate \<Rightarrow> system_log" where
  "makeLog s statsPersonCount a =
     \<lparr> logLevel = ''INFO'',
       logMessage = ''Live detection: '' @ alType a @ '' - '' @ alDescription a,
       logModule = ''live_detection'',
       logConfidence = alConfidence a,
       logFrameNumber = frameCount s,
       logPersonCount = statsPersonCount \<rparr>"

text \<open>The body of the \<open>for\<close> loop for one candidate.\<close>

definition handleAlert ::
  "detection \<Rightarrow> nat option \<Rightarrow> arrival \<Rightarrow> disposition \<times> detection" where
  "handleAlert s statsPersonCount ar =
     (let a = cand ar;
          key = alertKey a;
          lastTime = lastAlertTime s key;
          now = arrivedAt ar
      in if now - lastTime < cooldownPeriod then (Skipped, s)
         else
           (case storeAlert ar of
              Some m \<Rightarrow> (CreateFailed (Error m), s)
            | None \<Rightarrow>
                (let s1 = s\<lparr> alertsTable :=
                              alertsTable s @ [insertedRow (makeAlertData s statsPersonCount a now)] \<rparr>;
                     s2 = s1\<lparr> alertCooldowns := AList.update key now (alertCooldowns s1) \<rparr>
                 in case storeLog ar of
                      Some m \<Rightarrow> (LogFailed (Error m), s2)
                    | None \<Rightarrow>
                        (Created, s2\<lparr> systemLogs := systemLogs s2 @ [makeLog s statsPersonCount a] \<rparr>))))"

text \<open>
  The loop inside its \<open>try\<close>: a candidate whose insert or log entry throws ends the
  loop; what the loop did with each candidate it reached is listed in order.
\<close>

fun processAlerts ::
  "detection \<Rightarrow> nat option \<Rightarrow> arrival list \<Rightarrow> disposition list \<times> detection" where
  "processAlerts s statsPersonCount [] = ([], s)"
| "processAlerts s statsPersonCount (ar # rest) =
     (case handleAlert s statsPersonCount ar of
        (CreateFailed e, s1) \<Rightarrow> ([CreateFailed e], s1)
      | (LogFailed e, s1) \<Rightarrow> ([LogFailed e], s1)
      | (d, s1) \<Rightarrow>
          (case processAlerts s1 statsPersonCount rest of (ds, s2) \<Rightarrow> (d # ds, s2)))"

text \<open>
  \<open>handleDetectionResults\<close>: the \<open>catch\<close> only writes to the console, so the call
  returns normally with what the loop left.
\<close>

definition handleDetectionResults ::
  "detection \<Rightarrow> nat option \<Rightarrow> arrival list \<Rightarrow> disposition list \<times> detection" where
  "handleDetectionResults s statsPersonCount arrivals = processAlerts s statsPersonCount arrivals"

section \<open>Detection service: scenarios\<close>

text \<open>
  Concrete inputs: a fight and a fall detected at the entrance, an idle service at frame
  7 with an empty store, and arrivals of the two candidates. \<open>storeDown\<close> is the error
  the store throws when it cannot insert.
\<close>

definition fight :: candidate where
  "fight = \<lparr> alType = ''fight'', alLocation = Some (LocText ''entrance''), alConfidence = 9 / 10,
     alPersonCount = Some 2, alDescription = ''Violent behavior detected'',
     alSeverity = Some ''high'' \<rparr>"

definition fall :: candidate where
  "fall = \<lparr> alType = ''fall'', alLocation = Some (LocText ''entrance''), alConfidence = 8 / 10,
     alPersonCount = None, alDescription = ''Person fall detected'', alSeverity = None \<rparr>"

definition idleDetection :: detection where
  "idleDetection = \<lparr> frameCount = 7, alertCooldowns = [], alertsTable = [], systemLogs = [] \<rparr>"

definition storeDown :: string where
  "storeDown = ''Failed to fetch''"

definition arrives :: "candidate \<Rightarrow> int \<Rightarrow> arrival" where
  "arrives a t = \<lparr> cand = a, arrivedAt = t, storeAlert = None, storeLog = None \<rparr>"

definition arrivesStoreDown :: "candidate \<Rightarrow> int \<Rightarrow> arrival" where
  "arrivesStoreDown a t =
     \<lparr> cand = a, arrivedAt = t, storeAlert = Some storeDown, storeLog = Some storeDown \<rparr>"

text \<open>No candidate of the list met a failing insert or log entry.\<close>

definition allSettled :: "disposition list \<Rightarrow> bool" where
  "allSettled ds = list_all (\<lambda>d. d = Skipped \<or> d = Created) ds"

section \<open>Facts: strings\<close>

lemma toDecimal_3840: "toDecimal 3840 = ''3840''"
  by (simp add: toDecimal.simps digit_def)

lemma toDecimal_2160: "toDecimal 2160 = ''2160''"
  by (simp add: toDecimal.simps digit_def)

lemma toDecimal_2560: "toDecimal 2560 = ''2560''"
  by (simp add: toDecimal.simps digit_def)

lemma toDecimal_1440: "toDecimal 1440 = ''1440''"
  by (simp add: toDecimal.simps digit_def)

lemma toDecimal_1920: "toDecimal 1920 = ''1920''"
  by (simp add: toDecimal.simps digit_def)

lemma toDecimal_1080: "toDecimal 1080 = ''1080''"
  by (simp add: toDecimal.simps digit_def)

lemma toDecimal_1280: "toDecimal 1280 = ''1280''"
  by (simp add: toDecimal.simps digit_def)

lemma toDecimal_720: "toDecimal 720 = ''720''"
  by (simp add: toDecimal.simps digit_def)

lemma toDecimal_854: "toDecimal 854 = ''854''"
  by (simp add: toDecimal.simps digit_def)

lemma toDecimal_640: "toDecimal 640 = ''640''"
  by (simp add: toDecimal.simps digit_def)

lemma toDecimal_480: "toDecimal 480 = ''480''"
  by (simp add: toDecimal.simps digit_def)

lemmas toDecimal_table =
  toDecimal_3840 toDecimal_2160 toDecimal_2560 toDecimal_1440 toDecimal_1920 toDecimal_1080
  toDecimal_1280 toDecimal_720 toDecimal_854 toDecimal_640 toDecimal_480

section \<open>Facts: the resolution ladder\<close>

lemma extractResolutions_full_hd:
  "capWidth caps = Some cw \<Longrightarrow> capHeight caps = Some ch \<Longrightarrow>
   bmax cw = Some 1920 \<Longrightarrow> bmax ch = Some 1080 \<Longrightarrow>
   extractResolutions caps = [''1920x1080'', ''1280x720'', ''854x480'', ''640x480'']"
  by (simp add: extractResolutions_def orDefault_def standardResolutions_def
      resolutionString_def toDecimal_table)

text \<open>
  C7 (as the code has it). For every capability envelope whose width bound has maximum
  1920 and whose height bound has maximum 1080, \<open>extractResolutions\<close> returns exactly
  \<open>["1920x1080", "1280x720", "854x480", "640x480"]\<close>: the 854x480 row of the table fits
  as well, and neither 3840x2160 nor 2560x1440 is offered.
\<close>

theorem C7_resolution_ladder_1080p:
  assumes "capWidth caps = Some cw" and "capHeight caps = Some ch"
    and "bmax cw = Some 1920" and "bmax ch = Some 1080"
  shows "extractResolutions caps = [''1920x1080'', ''1280x720'', ''854x480'', ''640x480'']
    \<and> ''3840x2160'' \<notin> set (extractResolutions caps)
    \<and> ''2560x1440'' \<notin> set (extractResolutions caps)"
  using extractResolutions_full_hd [OF assms] by simp

theorem C7_resolution_ladder_1080p_witness:
  "extractResolutions (noCapabilities \<lparr>
       capWidth := Some \<lparr> bmin = Some 1, bmax = Some 1920 \<rparr>,
       capHeight := Some \<lparr> bmin = Some 1, bmax = Some 1080 \<rparr> \<rparr>)
     = [''1920x1080'', ''1280x720'', ''854x480'', ''640x480'']"
  using C7_resolution_ladder_1080p
    [of "noCapabilities \<lparr>
       capWidth := Some \<lparr> bmin = Some 1, bmax = Some 1920 \<rparr>,
       capHeight := Some \<lparr> bmin = Some 1, bmax = Some 1080 \<rparr> \<rparr>"
      "\<lparr> bmin = Some 1, bmax = Some 1920 \<rparr>" "\<lparr> bmin = Some 1, bmax = Some 1080 \<rparr>"]
  by (simp add: noCapabilities_def)

text \<open>
  The list the specification gives for that device, without 854x480, is not what the
  code returns.
\<close>

theorem C7_three_entry_ladder_counterexample:
  "extractResolutions (noCapabilities \<lparr>
       capWidth := Some \<lparr> bmin = Some 1, bmax = Some 1920 \<rparr>,
       capHeight := Some \<lparr> bmin = Some 1, bmax = Some 1080 \<rparr> \<rparr>)
     \<noteq> [''1920x1080'', ''1280x720'', ''640x480'']"
  by (simp add: extractResolutions_def orDefault_def standardResolutions_def
      resolutionString_def toDecimal_table noCapabilities_def)

section \<open>Facts: the retry loop and the breaker\<close>

lemma attemptRequest_frame:
  "attemptRequest s r = (res, s1) \<Longrightarrow>
   circuitBreaker s1 = circuitBreaker s \<and> cache s1 = cache s \<and> metrics s1 = metrics s"
  by (auto simp: attemptRequest_def handleUnauthorized_def split: fetch_result.splits if_splits sum.splits)

lemma executeLoop_past:
  "\<not> attempt \<le> maxRetries \<Longrightarrow>
   executeLoop net attempt lastError s tr sl =
     \<lparr> exResult = Inl (case lastError of None \<Rightarrow> Undefined | Some e \<Rightarrow> e),
       exState = s, exAttempts = tr, exSleeps = sl \<rparr>"
  by (subst executeLoop.simps) simp

lemma executeLoop_return:
  "attempt \<le> maxRetries \<Longrightarrow> attemptRequest s (net attempt) = (Inr d, s1) \<Longrightarrow>
   executeLoop net attempt lastError s tr sl =
     \<lparr> exResult = Inr d, exState = s1, exAttempts = tr @ [net attempt], exSleeps = sl \<rparr>"
  by (subst executeLoop.simps) simp

lemma executeLoop_retry:
  "attempt < maxRetries \<Longrightarrow> attemptRequest s (net attempt) = (Inl e, s1) \<Longrightarrow> shouldRetry e \<Longrightarrow>
   executeLoop net attempt lastError s tr sl =
     executeLoop net (attempt + 1) (Some e) s1 (tr @ [net attempt]) (sl @ [retryDelay attempt])"
  by (subst executeLoop.simps) simp

lemma executeLoop_break:
  "attempt \<le> maxRetries \<Longrightarrow> attemptRequest s (net attempt) = (Inl e, s1) \<Longrightarrow>
   \<not> (attempt < maxRetries \<and> shouldRetry e) \<Longrightarrow>
   executeLoop net attempt lastError s tr sl =
     \<lparr> exResult = Inl e, exState = s1, exAttempts = tr @ [net attempt], exSleeps = sl \<rparr>"
  by (subst executeLoop.simps) auto

lemma executeLoop_frame:
  "circuitBreaker (exState (executeLoop net a le s tr sl)) = circuitBreaker s
   \<and> cache (exState (executeLoop net a le s tr sl)) = cache s
   \<and> metrics (exState (executeLoop net a le s tr sl)) = metrics s"
proof (induction net a le s tr sl rule: executeLoop.induct)
  case (1 net attempt lastError s tr sl)
  show ?case
  proof (cases "attempt \<le> maxRetries")
    case False
    then show ?thesis by (simp add: executeLoop_past)
  next
    case True
    obtain res s1 where a: "attemptRequest s (net attempt) = (res, s1)"
      by (cases "attemptRequest s (net attempt)") auto
    note fr = attemptRequest_frame [OF a]
    show ?thesis
    proof (cases res)
      case (Inr d)
      with True a fr show ?thesis by (simp add: executeLoop_return)
    next
      case (Inl e)
      show ?thesis
      proof (cases "attempt < maxRetries \<and> shouldRetry e")
        case False
        with True a fr Inl show ?thesis by (simp add: executeLoop_break)
      next
        case retry: True
        have "executeLoop net attempt lastError s tr sl =
          executeLoop net (attempt + 1) (Some e) s1 (tr @ [net attempt]) (sl @ [retryDelay attempt])"
          using a Inl retry by (simp add: executeLoop_retry)
        moreover note "1.IH" [OF True a [symmetric] Inl retry]
        ultimately show ?thesis using fr by simp
      qed
    qed
  qed
qed

lemma run_snoc:
  "run s (evs @ [ev]) =
     (case run s evs of (outs, s1) \<Rightarrow> (case step s1 ev of (out, s2) \<Rightarrow> (outs @ [out], s2)))"
  by (induction evs arbitrary: s) (auto split: prod.splits)

lemma streak_snoc: "streak (outs @ [out]) = streakStep (streak outs) out"
  by (simp add: streak_def)

lemma checkCircuit_cases:
  "checkCircuit s now = Refused e s1 \<Longrightarrow> s1 = s \<and> cbState (circuitBreaker s) = Open"
  "checkCircuit s now = Admitted s1 \<Longrightarrow>
     cbFailures (circuitBreaker s1) = cbFailures (circuitBreaker s)
     \<and> (cbState (circuitBreaker s1) = Closed) = (cbState (circuitBreaker s) = Closed)"
  by (auto simp: checkCircuit_def Let_def split: if_splits)

lemma checkCircuit_not_Served: "checkCircuit s now \<noteq> Served d s1"
  by (simp add: checkCircuit_def Let_def)

lemma consultCache_breaker: "consultCache s now key = (r, s1) \<Longrightarrow> circuitBreaker s1 = circuitBreaker s"
  by (auto simp: consultCache_def getFromCache_def split: option.splits if_splits prod.splits)

lemma requestEnter_Refused:
  "requestEnter s now ep opts = Refused e s1 \<Longrightarrow>
   circuitBreaker s1 = circuitBreaker s \<and> cbState (circuitBreaker s) = Open"
  by (auto simp: requestEnter_def Let_def split: if_splits prod.splits option.splits
      dest!: checkCircuit_cases(1) consultCache_breaker)

lemma requestEnter_Admitted:
  "requestEnter s now ep opts = Admitted s1 \<Longrightarrow>
     cbFailures (circuitBreaker s1) = cbFailures (circuitBreaker s)
     \<and> (cbState (circuitBreaker s1) = Closed) = (cbState (circuitBreaker s) = Closed)"
  by (auto simp: requestEnter_def Let_def split: if_splits prod.splits option.splits
      dest!: checkCircuit_cases(2) consultCache_breaker)

lemma requestEnter_Served:
  "requestEnter s now ep opts = Served d s1 \<Longrightarrow> circuitBreaker s1 = circuitBreaker s"
  by (auto simp: requestEnter_def Let_def checkCircuit_not_Served split: if_splits prod.splits option.splits
      dest!: consultCache_breaker)


lemma updateMetrics_breaker [simp]: "circuitBreaker (updateMetrics s b rt) = circuitBreaker s"
  by (simp add: updateMetrics_def Let_def)

lemma setCache_breaker [simp]: "circuitBreaker (setCache s now key d) = circuitBreaker s"
  by (simp add: setCache_def Let_def)

lemma handleRequestFailure_breaker:
  "circuitBreaker (handleRequestFailure s now) =
     (circuitBreaker s)\<lparr> cbFailures := cbFailures (circuitBreaker s) + 1, lastFailure := Some now,
        cbState := (if failureThreshold \<le> cbFailures (circuitBreaker s) + 1 then Open
                    else cbState (circuitBreaker s)) \<rparr>"
  by (simp add: handleRequestFailure_def Let_def)

lemma executeRequest_breaker [simp]:
  "circuitBreaker (exState (executeRequest s net)) = circuitBreaker s"
  by (simp add: executeRequest_def executeLoop_frame)

lemma requestSettle_failure:
  "rResult (requestSettle s now rt ep opts net) = Inl e \<Longrightarrow>
   circuitBreaker (rState (requestSettle s now rt ep opts net)) =
     (circuitBreaker s)\<lparr> cbFailures := cbFailures (circuitBreaker s) + 1, lastFailure := Some now,
        cbState := (if failureThreshold \<le> cbFailures (circuitBreaker s) + 1 then Open
                    else cbState (circuitBreaker s)) \<rparr>"
  by (auto simp: requestSettle_def Let_def handleRequestFailure_breaker split: sum.splits)

lemma requestSettle_success:
  "rResult (requestSettle s now rt ep opts net) = Inr d \<Longrightarrow>
   circuitBreaker (rState (requestSettle s now rt ep opts net)) =
     (if cbState (circuitBreaker s) = HalfOpen
      then (circuitBreaker s)\<lparr> cbState := Closed, cbFailures := 0 \<rparr>
      else circuitBreaker s)"
  by (auto simp: requestSettle_def Let_def closeIfHalfOpen_def split: sum.splits)

lemma step_breakerOk:
  assumes "breakerOk s" and "step s ev = (out, s1)"
  shows "breakerOk s1"
proof (cases ev)
  case (Call now ep opts)
  with assms show ?thesis
    by (auto simp: step_def breakerOk_def split: entered.splits
        dest: requestEnter_Served requestEnter_Refused requestEnter_Admitted)
next
  case (Finish now rt ep opts net)
  show ?thesis
  proof (cases "rResult (requestSettle s now rt ep opts net)")
    case (Inl e)
    from requestSettle_failure [OF Inl] assms Finish Inl show ?thesis
      by (auto simp: step_def breakerOk_def Let_def)
  next
    case (Inr d)
    from requestSettle_success [OF Inr] assms Finish Inr show ?thesis
      by (auto simp: step_def breakerOk_def Let_def)
  qed
qed

lemma step_streak:
  assumes "breakerOk s" and "step s ev = (out, s1)"
    and "n \<le> cbFailures (circuitBreaker s) \<or> failureThreshold \<le> cbFailures (circuitBreaker s)"
  shows "streakStep n out \<le> cbFailures (circuitBreaker s1)
         \<or> failureThreshold \<le> cbFailures (circuitBreaker s1)"
proof (cases ev)
  case (Call now ep opts)
  with assms show ?thesis
    by (auto simp: step_def breakerOk_def streakStep_def split: entered.splits
        dest: requestEnter_Served requestEnter_Refused requestEnter_Admitted)
next
  case (Finish now rt ep opts net)
  show ?thesis
  proof (cases "rResult (requestSettle s now rt ep opts net)")
    case (Inl e)
    from requestSettle_failure [OF Inl] assms Finish Inl show ?thesis
      by (auto simp: step_def breakerOk_def Let_def streakStep_def)
  next
    case (Inr d)
    from assms Finish Inr show ?thesis
      by (auto simp: step_def Let_def streakStep_def)
  qed
qed

lemma step_failure_opens:
  assumes "step s ev = (out, s1)" and "isFailure out"
    and "failureThreshold \<le> cbFailures (circuitBreaker s1)"
  shows "cbState (circuitBreaker s1) = Open"
proof (cases ev)
  case (Call now ep opts)
  with assms show ?thesis
    by (auto simp: step_def isFailure_def split: entered.splits
        dest: requestEnter_Refused)
next
  case (Finish now rt ep opts net)
  show ?thesis
  proof (cases "rResult (requestSettle s now rt ep opts net)")
    case (Inl e)
    from requestSettle_failure [OF Inl] assms Finish Inl show ?thesis
      by (auto simp: step_def Let_def split: if_splits)
  next
    case (Inr d)
    from assms Finish Inr show ?thesis
      by (auto simp: step_def Let_def isFailure_def)
  qed
qed

lemma run_invariant:
  "breakerOk s \<Longrightarrow> run s evs = (outs, s') \<Longrightarrow>
   breakerOk s'
   \<and> (streak outs \<le> cbFailures (circuitBreaker s')
      \<or> failureThreshold \<le> cbFailures (circuitBreaker s'))"
proof (induction evs arbitrary: outs s' rule: rev_induct)
  case Nil
  then show ?case by (simp add: streak_def)
next
  case (snoc ev evs)
  obtain outs1 s1 where r: "run s evs = (outs1, s1)" by (cases "run s evs") auto
  obtain out s2 where st: "step s1 ev = (out, s2)" by (cases "step s1 ev") auto
  from snoc.prems(2) r st have eq: "outs = outs1 @ [out]" "s' = s2"
    by (simp_all add: run_snoc)
  from snoc.IH [OF snoc.prems(1) r] have ih: "breakerOk s1"
    "streak outs1 \<le> cbFailures (circuitBreaker s1) \<or> failureThreshold \<le> cbFailures (circuitBreaker s1)"
    by simp_all
  show ?case
    using step_breakerOk [OF ih(1) st] step_streak [OF ih(1) st ih(2)] eq
    by (simp add: streak_snoc)
qed

lemma run_five_failures_open:
  assumes "breakerOk s" and "run s evs = (outs, s')"
    and "outs \<noteq> []" and "isFailure (last outs)" and "5 \<le> streak outs"
  shows "cbState (circuitBreaker s') = Open"
proof -
  from assms(3) obtain evs1 ev where evs: "evs = evs1 @ [ev]"
    using assms(2) by (cases evs rule: rev_cases) auto
  obtain outs1 s1 where r: "run s evs1 = (outs1, s1)" by (cases "run s evs1") auto
  obtain out s2 where st: "step s1 ev = (out, s2)" by (cases "step s1 ev") auto
  from assms(2) evs r st have eq: "outs = outs1 @ [out]" "s' = s2"
    by (simp_all add: run_snoc)
  from run_invariant [OF assms(1,2)] assms(5)
  have "failureThreshold \<le> cbFailures (circuitBreaker s')"
    by (auto simp: failureThreshold_def)
  with step_failure_opens [OF st] assms(4) eq show ?thesis by simp
qed

lemma newBackend_breakerOk: "breakerOk (newBackend tok)"
  by (simp add: breakerOk_def newBackend_def)

section \<open>Facts: the circuit breaker\<close>

lemma consultCache_since:
  "consultCache s now key = (r, s1) \<Longrightarrow> sinceLastFailure s1 now = sinceLastFailure s now"
  by (auto simp: sinceLastFailure_def dest: consultCache_breaker)

lemma requestEnter_unserved:
  "\<not> isServed (requestEnter s now ep opts) \<Longrightarrow>
   \<exists>s0. circuitBreaker s0 = circuitBreaker s \<and> requestEnter s now ep opts = checkCircuit s0 now"
  by (auto simp: requestEnter_def Let_def isServed_def split: if_splits prod.splits option.splits
      dest: consultCache_breaker)

lemma requestEnter_open_early:
  assumes "cbState (circuitBreaker s) = Open" and "sinceLastFailure s now < resetTimeout"
    and "\<not> isServed (requestEnter s now ep opts)"
  shows "\<exists>s1. requestEnter s now ep opts =
           Refused (Error ''Circuit breaker is open - service temporarily unavailable'') s1
         \<and> circuitBreaker s1 = circuitBreaker s"
proof -
  from requestEnter_unserved [OF assms(3)] obtain s0 where
    s0: "circuitBreaker s0 = circuitBreaker s" "requestEnter s now ep opts = checkCircuit s0 now"
    by blast
  from s0(1) have "sinceLastFailure s0 now = sinceLastFailure s now"
    by (simp add: sinceLastFailure_def)
  with assms s0 show ?thesis by (simp add: checkCircuit_def Let_def)
qed

lemma requestEnter_open_late:
  assumes "cbState (circuitBreaker s) = Open" and "resetTimeout \<le> sinceLastFailure s now"
    and "\<not> isServed (requestEnter s now ep opts)"
  shows "\<exists>s1. requestEnter s now ep opts = Admitted s1
         \<and> circuitBreaker s1 = (circuitBreaker s)\<lparr> cbState := HalfOpen \<rparr>"
proof -
  from requestEnter_unserved [OF assms(3)] obtain s0 where
    s0: "circuitBreaker s0 = circuitBreaker s" "requestEnter s now ep opts = checkCircuit s0 now"
    by blast
  from s0(1) have "sinceLastFailure s0 now = sinceLastFailure s now"
    by (simp add: sinceLastFailure_def)
  with assms s0 show ?thesis by (simp add: checkCircuit_def Let_def)
qed

lemma requestEnter_not_open:
  assumes "cbState (circuitBreaker s) \<noteq> Open"
    and "\<not> isServed (requestEnter s now ep opts)"
  shows "\<exists>s1. requestEnter s now ep opts = Admitted s1 \<and> circuitBreaker s1 = circuitBreaker s"
proof -
  from requestEnter_unserved [OF assms(2)] obtain s0 where
    s0: "circuitBreaker s0 = circuitBreaker s" "requestEnter s now ep opts = checkCircuit s0 now"
    by blast
  with assms show ?thesis by (simp add: checkCircuit_def Let_def)
qed

lemma request_open_early:
  assumes "cbState (circuitBreaker s) = Open" and "sinceLastFailure s t0 < resetTimeout"
    and "\<not> isServed (requestEnter s t0 ep opts)"
  shows "rResult (request s t0 t1 rt ep opts net) =
           Inl (Error ''Circuit breaker is open - service temporarily unavailable'')
         \<and> rAttempts (request s t0 t1 rt ep opts net) = []
         \<and> circuitBreaker (rState (request s t0 t1 rt ep opts net)) = circuitBreaker s"
  using requestEnter_open_early [OF assms] by (auto simp: request_def)

lemma step_Call_open_late:
  assumes "cbState (circuitBreaker s) = Open" and "resetTimeout \<le> sinceLastFailure s now"
    and "\<not> isServed (requestEnter s now ep opts)"
  shows "fst (step s (Call now ep opts)) = Sent
         \<and> circuitBreaker (snd (step s (Call now ep opts))) = (circuitBreaker s)\<lparr> cbState := HalfOpen \<rparr>"
  using requestEnter_open_late [OF assms] by (auto simp: step_def)

lemma step_Call_half_open:
  assumes "cbState (circuitBreaker s) = HalfOpen"
    and "\<not> isServed (requestEnter s now ep opts)"
  shows "fst (step s (Call now ep opts)) = Sent
         \<and> circuitBreaker (snd (step s (Call now ep opts))) = circuitBreaker s"
proof -
  from assms(1) have "cbState (circuitBreaker s) \<noteq> Open" by simp
  from requestEnter_not_open [OF this assms(2)] show ?thesis by (auto simp: step_def)
qed

lemma probe_success_closes:
  assumes "cbState (circuitBreaker s) = HalfOpen"
    and "rResult (requestSettle s now rt ep opts net) = Inr d"
  shows "cbState (circuitBreaker (rState (requestSettle s now rt ep opts net))) = Closed
         \<and> cbFailures (circuitBreaker (rState (requestSettle s now rt ep opts net))) = 0"
  using requestSettle_success [OF assms(2)] assms(1) by simp

lemma run_from_new:
  assumes "run (newBackend tok) evs = (outs, s')"
    and "outs \<noteq> []" and "isFailure (last outs)" and "5 \<le> streak outs"
  shows "cbState (circuitBreaker s') = Open"
  using run_five_failures_open [OF newBackend_breakerOk assms] .

text \<open>
  C1 (as the code has it). (1) For every sequence of calls and completions played on a
  new service: right after a failed call that is at least the fifth failure since the
  last success, the breaker is open. (2) While the breaker is open and less than
  \<open>resetTimeout\<close> (60 s) has passed since the last failure, a call that is not served
  from the cache fails at once with the service-unavailable error, makes no network
  attempt and leaves the breaker as it is. (3) Once the timeout has passed, such a call
  is sent to the network and the breaker becomes half-open. (4) A call that enters while
  the breaker is half-open is sent to the network as well, whatever is still pending: the
  number of probes is not limited. (5) A request that succeeds while the breaker is
  half-open closes it and sets the failure counter to 0.
\<close>

theorem C1_circuit_breaker:
  "(\<forall>tok evs outs s'.
      run (newBackend tok) evs = (outs, s') \<and> outs \<noteq> [] \<and> isFailure (last outs)
        \<and> 5 \<le> streak outs
      \<longrightarrow> cbState (circuitBreaker s') = Open)
   \<and> (\<forall>s t0 t1 rt ep opts net.
      cbState (circuitBreaker s) = Open \<and> sinceLastFailure s t0 < 60000
        \<and> \<not> isServed (requestEnter s t0 ep opts)
      \<longrightarrow> rResult (request s t0 t1 rt ep opts net) =
            Inl (Error ''Circuit breaker is open - service temporarily unavailable'')
          \<and> rAttempts (request s t0 t1 rt ep opts net) = []
          \<and> circuitBreaker (rState (request s t0 t1 rt ep opts net)) = circuitBreaker s)
   \<and> (\<forall>s now ep opts.
      cbState (circuitBreaker s) = Open \<and> 60000 \<le> sinceLastFailure s now
        \<and> \<not> isServed (requestEnter s now ep opts)
      \<longrightarrow> fst (step s (Call now ep opts)) = Sent
          \<and> circuitBreaker (snd (step s (Call now ep opts)))
              = (circuitBreaker s)\<lparr> cbState := HalfOpen \<rparr>)
   \<and> (\<forall>s now ep opts.
      cbState (circuitBreaker s) = HalfOpen \<and> \<not> isServed (requestEnter s now ep opts)
      \<longrightarrow> fst (step s (Call now ep opts)) = Sent
          \<and> circuitBreaker (snd (step s (Call now ep opts))) = circuitBreaker s)
   \<and> (\<forall>s now rt ep opts net d.
      cbState (circuitBreaker s) = HalfOpen
        \<and> rResult (requestSettle s now rt ep opts net) = Inr d
      \<longrightarrow> cbState (circuitBreaker (rState (requestSettle s now rt ep opts net))) = Closed
          \<and> cbFailures (circuitBreaker (rState (requestSettle s now rt ep opts net))) = 0)"
proof (intro conjI allI impI)
  fix tok evs outs s'
  assume "run (newBackend tok) evs = (outs, s') \<and> outs \<noteq> [] \<and> isFailure (last outs)
    \<and> 5 \<le> streak outs"
  then show "cbState (circuitBreaker s') = Open"
    using run_from_new by blast
next
  fix s t0 t1 rt ep opts net
  assume a: "cbState (circuitBreaker s) = Open \<and> sinceLastFailure s t0 < 60000
    \<and> \<not> isServed (requestEnter s t0 ep opts)"
  then have b: "sinceLastFailure s t0 < resetTimeout" by (simp add: resetTimeout_def)
  from a b request_open_early [of s t0 ep opts t1 rt net]
  show "rResult (request s t0 t1 rt ep opts net) =
          Inl (Error ''Circuit breaker is open - service temporarily unavailable'')"
    and "rAttempts (request s t0 t1 rt ep opts net) = []"
    and "circuitBreaker (rState (request s t0 t1 rt ep opts net)) = circuitBreaker s"
    by simp_all
next
  fix s now ep opts
  assume a: "cbState (circuitBreaker s) = Open \<and> 60000 \<le> sinceLastFailure s now
    \<and> \<not> isServed (requestEnter s now ep opts)"
  then have b: "resetTimeout \<le> sinceLastFailure s now" by (simp add: resetTimeout_def)
  from a b step_Call_open_late [of s now ep opts]
  show "fst (step s (Call now ep opts)) = Sent"
    and "circuitBreaker (snd (step s (Call now ep opts)))
          = (circuitBreaker s)\<lparr> cbState := HalfOpen \<rparr>"
    by simp_all
next
  fix s now ep opts
  assume a: "cbState (circuitBreaker s) = HalfOpen \<and> \<not> isServed (requestEnter s now ep opts)"
  with step_Call_half_open [of s now ep opts]
  show "fst (step s (Call now ep opts)) = Sent"
    and "circuitBreaker (snd (step s (Call now ep opts))) = circuitBreaker s"
    by simp_all
next
  fix s now rt ep opts net d
  assume a: "cbState (circuitBreaker s) = HalfOpen
    \<and> rResult (requestSettle s now rt ep opts net) = Inr d"
  with probe_success_closes [of s now rt ep opts net d]
  show "cbState (circuitBreaker (rState (requestSettle s now rt ep opts net))) = Closed"
    and "cbFailures (circuitBreaker (rState (requestSettle s now rt ep opts net))) = 0"
    by simp_all
qed

section \<open>Facts: the breaker on the scenario\<close>

lemmas enter_defs = step_def requestEnter_def readShaped_def consultCache_def getFromCache_def
  getCacheKey_def checkCircuit_def sinceLastFailure_def Let_def resetTimeout_def isServed_def

lemmas settle_defs = requestSettle_def handleRequestFailure_def updateMetrics_def
  failureThreshold_def closeIfHalfOpen_def setCache_def maxSize_def defaultTTL_def

lemma shouldRetry_failed_to_fetch: "shouldRetry (Error ''Failed to fetch'')"
  by (simp add: shouldRetry_def)

lemma executeRequest_offline:
  "executeRequest s offline =
     \<lparr> exResult = Inl (Error ''Failed to fetch''), exState = s,
       exAttempts = [Rejected ''Failed to fetch'', Rejected ''Failed to fetch'',
                     Rejected ''Failed to fetch'', Rejected ''Failed to fetch''],
       exSleeps = [1000, 2000, 4000] \<rparr>"
  by (simp add: executeRequest_def executeLoop.simps attemptRequest_def offline_def
      shouldRetry_failed_to_fetch maxRetries_def retryDelay_def baseDelay_def maxDelay_def)

lemma executeRequest_healthy:
  "executeRequest s healthy =
     \<lparr> exResult = Inr (JObj [(''status'', JStr ''healthy'')]), exState = s,
       exAttempts = [Response 200 ''OK'' (Inr (JObj [(''status'', JStr ''healthy'')]))],
       exSleeps = [] \<rparr>"
  by (simp add: executeRequest_def executeLoop.simps attemptRequest_def healthy_def
      responseOk_def maxRetries_def)

lemma tripScenario_outcomes:
  "fst (run (newBackend None) tripScenario) =
     [Sent, Success (JObj [(''status'', JStr ''healthy'')]),
      Sent, Failure (Error ''Failed to fetch''), Sent, Failure (Error ''Failed to fetch''),
      Sent, Failure (Error ''Failed to fetch''), Sent, Failure (Error ''Failed to fetch''),
      Sent, Failure (Error ''Failed to fetch'')]"
  by (simp add: tripScenario_def failedCall_def newBackend_def getOptions_def enter_defs
      settle_defs executeRequest_offline executeRequest_healthy)

lemma tripped_eq:
  "tripped =
     \<lparr> token = None, localToken = None,
       circuitBreaker = \<lparr> cbState = Open, cbFailures = 5, lastFailure = Some 48000 \<rparr>,
       cache = [(''/system/health_{}'',
                 \<lparr> cdata = JObj [(''status'', JStr ''healthy'')], expires = 300100 \<rparr>)],
       metrics = \<lparr> requests = 6, failures = 5, cacheHits = 0, cacheMisses = 6,
         averageResponseTime = 50 / 3 \<rparr>,
       dispatched = [] \<rparr>"
  by (simp add: tripped_def tripScenario_def failedCall_def newBackend_def getOptions_def
      enter_defs settle_defs executeRequest_offline executeRequest_healthy)

lemma streak_tripScenario: "streak (fst (run (newBackend None) tripScenario)) = 5"
  by (simp add: tripScenario_outcomes streak_def streakStep_def)

theorem C1_circuit_breaker_witness:
  "streak (fst (run (newBackend None) tripScenario)) = 5
   \<and> cbState (circuitBreaker tripped) = Open
   \<and> rResult (request tripped 50000 50001 1 ''/alerts'' getOptions healthy)
       = Inl (Error ''Circuit breaker is open - service temporarily unavailable'')
   \<and> rAttempts (request tripped 50000 50001 1 ''/alerts'' getOptions healthy) = []
   \<and> fst (step tripped (Call 108000 ''/alerts'' getOptions)) = Sent
   \<and> cbState (circuitBreaker (snd (step tripped (Call 108000 ''/alerts'' getOptions)))) = HalfOpen
   \<and> fst (step (snd (step tripped (Call 108000 ''/alerts'' getOptions)))
          (Call 108000 ''/cameras'' getOptions)) = Sent
   \<and> cbFailures (circuitBreaker (rState (requestSettle
          (snd (step tripped (Call 108000 ''/alerts'' getOptions)))
          108200 200 ''/alerts'' getOptions healthy))) = 0"
proof -
  let ?half = "snd (step tripped (Call 108000 ''/alerts'' getOptions))"
  note p1 = C1_circuit_breaker [THEN conjunct1, rule_format]
  note p2 = C1_circuit_breaker [THEN conjunct2, THEN conjunct1, rule_format]
  note p3 = C1_circuit_breaker [THEN conjunct2, THEN conjunct2, THEN conjunct1, rule_format]
  note p4 = C1_circuit_breaker [THEN conjunct2, THEN conjunct2, THEN conjunct2, THEN conjunct1,
    rule_format]
  note p5 = C1_circuit_breaker [THEN conjunct2, THEN conjunct2, THEN conjunct2, THEN conjunct2,
    rule_format]
  have run: "run (newBackend None) tripScenario = (fst (run (newBackend None) tripScenario), tripped)"
    by (simp add: tripped_def)
  have h1: "fst (run (newBackend None) tripScenario) \<noteq> []"
    "isFailure (last (fst (run (newBackend None) tripScenario)))"
    "5 \<le> streak (fst (run (newBackend None) tripScenario))"
    using streak_tripScenario by (simp_all add: tripScenario_outcomes isFailure_def)
  have c1: "cbState (circuitBreaker tripped) = Open"
    using p1 [of None tripScenario "fst (run (newBackend None) tripScenario)" tripped] run h1
    by simp
  have h2: "sinceLastFailure tripped 50000 < 60000"
    "\<not> isServed (requestEnter tripped 50000 ''/alerts'' getOptions)"
    by (simp_all add: tripped_eq getOptions_def enter_defs)
  have c2: "rResult (request tripped 50000 50001 1 ''/alerts'' getOptions healthy)
       = Inl (Error ''Circuit breaker is open - service temporarily unavailable'')
     \<and> rAttempts (request tripped 50000 50001 1 ''/alerts'' getOptions healthy) = []"
    using p2 [of tripped 50000 "''/alerts''" getOptions 50001 1 healthy] c1 h2 by simp
  have h3: "60000 \<le> sinceLastFailure tripped 108000"
    "\<not> isServed (requestEnter tripped 108000 ''/alerts'' getOptions)"
    by (simp_all add: tripped_eq getOptions_def enter_defs)
  have c3: "fst (step tripped (Call 108000 ''/alerts'' getOptions)) = Sent
     \<and> circuitBreaker ?half = (circuitBreaker tripped)\<lparr> cbState := HalfOpen \<rparr>"
    using p3 [of tripped 108000 "''/alerts''" getOptions] c1 h3 by simp
  then have half: "cbState (circuitBreaker ?half) = HalfOpen" by simp
  have h4: "\<not> isServed (requestEnter ?half 108000 ''/cameras'' getOptions)"
    by (simp add: tripped_eq getOptions_def enter_defs)
  have c4: "fst (step ?half (Call 108000 ''/cameras'' getOptions)) = Sent"
    using p4 [of ?half 108000 "''/cameras''" getOptions] half h4 by simp
  have h5: "rResult (requestSettle ?half 108200 200 ''/alerts'' getOptions healthy)
      = Inr (JObj [(''status'', JStr ''healthy'')])"
    by (simp add: requestSettle_def executeRequest_healthy Let_def)
  have c5: "cbFailures (circuitBreaker (rState (requestSettle ?half 108200 200 ''/alerts''
      getOptions healthy))) = 0"
    using p5 [of ?half 108200 200 "''/alerts''" getOptions healthy] half h5 by simp
  from streak_tripScenario c1 c2 c3 half c4 c5 show ?thesis by simp
qed

text \<open>
  The specification's breaker lets exactly one probe through and fails every call made
  while it is open. On the tripped service (open, last failure at 48000) two calls made
  at 108000, before either has finished, are both sent to the network; and at 50000,
  while the breaker is open and the timeout has not passed, the read of
  \<open>/system/health\<close> is answered from the cache.
\<close>

theorem C1_single_probe_counterexample:
  "cbState (circuitBreaker tripped) = Open
   \<and> fst (run tripped [Call 108000 ''/alerts'' getOptions, Call 108000 ''/cameras'' getOptions])
       = [Sent, Sent]
   \<and> rResult (request tripped 50000 50001 1 ''/system/health'' getOptions offline)
       = Inr (JObj [(''status'', JStr ''healthy'')])"
  by (simp add: tripped_eq getOptions_def enter_defs request_def)

section \<open>Facts: retries\<close>

lemma retryDelay_values:
  "retryDelay 0 = 1000" "retryDelay 1 = 2000" "retryDelay 2 = 4000"
  by (simp_all add: retryDelay_def baseDelay_def maxDelay_def)

lemma retryDelay_capped: "retryDelay n \<le> 10000"
  by (simp add: retryDelay_def maxDelay_def)

lemma toDecimal_http:
  "toDecimal 501 = ''501''" "toDecimal 503 = ''503''" "toDecimal 401 = ''401''"
  by (simp_all add: toDecimal.simps digit_def)

lemma startsWith_append: "startsWith s p \<Longrightarrow> startsWith (s @ t) p"
  by (induction s p rule: startsWith.induct) auto

lemma strIncludes_append: "strIncludes s p \<Longrightarrow> strIncludes (s @ t) p"
proof (induction s)
  case Nil
  then show ?case by (cases t) auto
next
  case (Cons c cs)
  then show ?case using startsWith_append [of "c # cs" p t] by auto
qed

text \<open>
  The four statuses \<open>shouldRetry\<close> knows are retried whatever the status text is.
\<close>

lemma shouldRetry_known_status:
  "status \<in> {500, 502, 503, 504} \<Longrightarrow>
   shouldRetry (Error (''HTTP '' @ toDecimal status @ '': '' @ statusText))"
proof -
  assume "status \<in> {500, 502, 503, 504}"
  then consider "status = 500" | "status = 502" | "status = 503" | "status = 504" by auto
  then show ?thesis
  proof cases
    case 1
    have "strIncludes (''HTTP 500: '' @ statusText) ''500''"
      by (rule strIncludes_append) simp
    with 1 show ?thesis by (simp add: shouldRetry_def toDecimal.simps digit_def)
  next
    case 2
    have "strIncludes (''HTTP 502: '' @ statusText) ''502''"
      by (rule strIncludes_append) simp
    with 2 show ?thesis by (simp add: shouldRetry_def toDecimal.simps digit_def)
  next
    case 3
    have "strIncludes (''HTTP 503: '' @ statusText) ''503''"
      by (rule strIncludes_append) simp
    with 3 show ?thesis by (simp add: shouldRetry_def toDecimal.simps digit_def)
  next
    case 4
    have "strIncludes (''HTTP 504: '' @ statusText) ''504''"
      by (rule strIncludes_append) simp
    with 4 show ?thesis by (simp add: shouldRetry_def toDecimal.simps digit_def)
  qed
qed

lemma shouldRetry_service_unavailable:
  "shouldRetry (Error ''HTTP 503: Service Unavailable'')"
  by (simp add: shouldRetry_def)

lemma shouldRetry_not_implemented:
  "\<not> shouldRetry (Error ''HTTP 501: Not Implemented'')"
  by (simp add: shouldRetry_def)

lemma shouldRetry_authentication_required:
  "\<not> shouldRetry (Error ''Authentication required'')"
  by (simp add: shouldRetry_def)

text \<open>
  The scenario of the specification: 503, 503, then 200. The payload of the third attempt
  is returned after sleeping 1 s and 2 s, and a request on a closed breaker leaves the
  failure counter alone.
\<close>

lemma executeRequest_flaky:
  "executeRequest s flaky =
     \<lparr> exResult = Inr (JObj [(''status'', JStr ''healthy'')]), exState = s,
       exAttempts = [Response 503 ''Service Unavailable'' (Inr JNull),
                     Response 503 ''Service Unavailable'' (Inr JNull),
                     Response 200 ''OK'' (Inr (JObj [(''status'', JStr ''healthy'')]))],
       exSleeps = [1000, 2000] \<rparr>"
  by (simp add: executeRequest_def executeLoop.simps attemptRequest_def flaky_def
      responseOk_def toDecimal_http shouldRetry_service_unavailable maxRetries_def
      retryDelay_def baseDelay_def maxDelay_def)

lemma retry_then_succeed:
  assumes "cbState (circuitBreaker s) = Closed"
    and "\<not> isServed (requestEnter s t0 ep opts)"
  shows "rResult (request s t0 t1 rt ep opts flaky) = Inr (JObj [(''status'', JStr ''healthy'')])
    \<and> rSleeps (request s t0 t1 rt ep opts flaky) = [1000, 2000]
    \<and> circuitBreaker (rState (request s t0 t1 rt ep opts flaky)) = circuitBreaker s"
proof -
  from assms(1) have "cbState (circuitBreaker s) \<noteq> Open" by simp
  from requestEnter_not_open [OF this assms(2)] obtain s1 where
    s1: "requestEnter s t0 ep opts = Admitted s1" "circuitBreaker s1 = circuitBreaker s"
    by blast
  with assms(1) show ?thesis
    by (simp add: request_def requestSettle_def executeRequest_flaky Let_def closeIfHalfOpen_def)
qed

text \<open>
  C2, where the code leaves the claim. A 501 answer is a 5xx status, and the comment on
  \<open>shouldRetry\<close> says 5xx status codes are retried; but the message
  \<open>HTTP 501: Not Implemented\<close> contains none of the texts \<open>shouldRetry\<close> looks for, so
  \<open>executeRequest\<close> makes one attempt, sleeps never and throws.
\<close>

theorem C2_status_501_not_retried:
  "exResult (executeRequest s notImplemented) = Inl (Error ''HTTP 501: Not Implemented'')
   \<and> exAttempts (executeRequest s notImplemented)
       = [Response 501 ''Not Implemented'' (Inr JNull)]
   \<and> exSleeps (executeRequest s notImplemented) = []"
  by (simp add: executeRequest_def executeLoop.simps attemptRequest_def notImplemented_def
      responseOk_def toDecimal_http shouldRetry_not_implemented maxRetries_def)

section \<open>Facts: HTTP 401\<close>

lemma attemptRequest_401:
  "is401 r \<Longrightarrow>
   attemptRequest s r = (Inl (Error ''Authentication required''), handleUnauthorized s)"
  by (auto simp: is401_def attemptRequest_def split: fetch_result.splits)

lemma attemptRequest_other:
  "\<not> is401 r \<Longrightarrow> attemptRequest s r = (res, s1) \<Longrightarrow> s1 = s"
  by (auto simp: is401_def attemptRequest_def split: fetch_result.splits if_splits sum.splits)

lemma executeLoop_401:
  "\<not> list_ex is401 tr \<Longrightarrow>
   list_ex is401 (exAttempts (executeLoop net a le s tr sl)) \<Longrightarrow>
   after401 (executeLoop net a le s tr sl)"
proof (induction net a le s tr sl rule: executeLoop.induct)
  case (1 net attempt lastError s tr sl)
  show ?case
  proof (cases "attempt \<le> maxRetries")
    case False
    with "1.prems" show ?thesis by (simp add: executeLoop_past)
  next
    case True
    show ?thesis
    proof (cases "is401 (net attempt)")
      case is401: True
      note a = attemptRequest_401 [OF is401, of s]
      have "executeLoop net attempt lastError s tr sl =
        \<lparr> exResult = Inl (Error ''Authentication required''), exState = handleUnauthorized s,
          exAttempts = tr @ [net attempt], exSleeps = sl \<rparr>"
        using True a shouldRetry_authentication_required by (simp add: executeLoop_break)
      with is401 "1.prems"(1) show ?thesis
        by (simp add: after401_def handleUnauthorized_def)
    next
      case not401: False
      obtain res s1 where a: "attemptRequest s (net attempt) = (res, s1)"
        by (cases "attemptRequest s (net attempt)") auto
      show ?thesis
      proof (cases res)
        case (Inr d)
        with True a have "exAttempts (executeLoop net attempt lastError s tr sl) = tr @ [net attempt]"
          by (simp add: executeLoop_return)
        with "1.prems" not401 show ?thesis by simp
      next
        case (Inl e)
        show ?thesis
        proof (cases "attempt < maxRetries \<and> shouldRetry e")
          case False
          with True a Inl
          have "exAttempts (executeLoop net attempt lastError s tr sl) = tr @ [net attempt]"
            by (simp add: executeLoop_break)
          with "1.prems" not401 show ?thesis by simp
        next
          case retry: True
          have eq: "executeLoop net attempt lastError s tr sl =
            executeLoop net (attempt + 1) (Some e) s1 (tr @ [net attempt]) (sl @ [retryDelay attempt])"
            using a Inl retry by (simp add: executeLoop_retry)
          have "\<not> list_ex is401 (tr @ [net attempt])"
            using "1.prems"(1) not401 by simp
          from "1.IH" [OF True a [symmetric] Inl retry this] "1.prems"(2) eq
          show ?thesis by simp
        qed
      qed
    qed
  qed
qed

lemma handleRequestFailure_token [simp]:
  "token (handleRequestFailure s now) = token s"
  "localToken (handleRequestFailure s now) = localToken s"
  by (simp_all add: handleRequestFailure_def updateMetrics_def Let_def)

lemma requestSettle_401:
  assumes "list_ex is401 (rAttempts (requestSettle s now rt ep opts net))"
  shows "rResult (requestSettle s now rt ep opts net) = Inl (Error ''Authentication required'')
    \<and> token (rState (requestSettle s now rt ep opts net)) = None
    \<and> localToken (rState (requestSettle s now rt ep opts net)) = None
    \<and> is401 (last (rAttempts (requestSettle s now rt ep opts net)))
    \<and> \<not> list_ex is401 (butlast (rAttempts (requestSettle s now rt ep opts net)))"
proof -
  have att: "rAttempts (requestSettle s now rt ep opts net) = exAttempts (executeRequest s net)"
    by (simp add: requestSettle_def Let_def split: sum.splits)
  with assms have "list_ex is401 (exAttempts (executeLoop net 0 None s [] []))"
    by (simp add: executeRequest_def)
  then have "after401 (executeLoop net 0 None s [] [])"
    by (intro executeLoop_401) simp_all
  then have "after401 (executeRequest s net)" by (simp add: executeRequest_def)
  then show ?thesis
    by (simp add: after401_def requestSettle_def Let_def att)
qed

text \<open>
  C3. Whenever a call of \<open>request\<close> receives a 401 response, that response is the last
  \<open>fetch\<close> of the call (nothing is retried after it, and no earlier attempt was a 401),
  the caller gets the error \<open>Authentication required\<close>, and the token is cleared both in
  the service and in local storage.
\<close>

theorem C3_unauthorized_not_retried:
  assumes "list_ex is401 (rAttempts (request s t0 t1 rt ep opts net))"
  shows "rResult (request s t0 t1 rt ep opts net) = Inl (Error ''Authentication required'')
    \<and> token (rState (request s t0 t1 rt ep opts net)) = None
    \<and> localToken (rState (request s t0 t1 rt ep opts net)) = None
    \<and> is401 (last (rAttempts (request s t0 t1 rt ep opts net)))
    \<and> \<not> list_ex is401 (butlast (rAttempts (request s t0 t1 rt ep opts net)))"
proof (cases "requestEnter s t0 ep opts")
  case (Served d s1)
  with assms show ?thesis by (simp add: request_def)
next
  case (Refused e s1)
  with assms show ?thesis by (simp add: request_def)
next
  case (Admitted s1)
  then have "request s t0 t1 rt ep opts net = requestSettle s1 t1 rt ep opts net"
    by (simp add: request_def)
  with assms requestSettle_401 [of s1 t1 rt ep opts net] show ?thesis by simp
qed

theorem C3_unauthorized_not_retried_witness:
  "list_ex is401
     (rAttempts (request (newBackend (Some ''secret'')) 0 100 100 ''/alerts'' getOptions unauthorized))
   \<and> rAttempts (request (newBackend (Some ''secret'')) 0 100 100 ''/alerts'' getOptions unauthorized)
       = [Response 401 ''Unauthorized'' (Inr JNull)]
   \<and> rResult (request (newBackend (Some ''secret'')) 0 100 100 ''/alerts'' getOptions unauthorized)
       = Inl (Error ''Authentication required'')
   \<and> token (rState
        (request (newBackend (Some ''secret'')) 0 100 100 ''/alerts'' getOptions unauthorized)) = None"
proof -
  let ?r = "request (newBackend (Some ''secret'')) 0 100 100 ''/alerts'' getOptions unauthorized"
  have ex: "executeRequest s unauthorized =
      \<lparr> exResult = Inl (Error ''Authentication required''), exState = handleUnauthorized s,
        exAttempts = [Response 401 ''Unauthorized'' (Inr JNull)], exSleeps = [] \<rparr>" for s
    by (simp add: executeRequest_def executeLoop.simps attemptRequest_def unauthorized_def
        shouldRetry_authentication_required maxRetries_def)
  have att: "rAttempts ?r = [Response 401 ''Unauthorized'' (Inr JNull)]"
    by (simp add: request_def newBackend_def getOptions_def enter_defs requestSettle_def ex)
  then have hyp: "list_ex is401 (rAttempts ?r)" by (simp add: is401_def)
  from C3_unauthorized_not_retried [OF hyp] hyp att show ?thesis by simp
qed

section \<open>Facts: the cache and mutating calls\<close>

lemma updateMetrics_cache [simp]: "cache (updateMetrics s b rt) = cache s"
  by (simp add: updateMetrics_def Let_def)

lemma handleRequestFailure_cache [simp]: "cache (handleRequestFailure s now) = cache s"
  by (simp add: handleRequestFailure_def Let_def)

lemma closeIfHalfOpen_cache [simp]: "cache (closeIfHalfOpen s) = cache s"
  by (simp add: closeIfHalfOpen_def)

lemma executeRequest_cache [simp]: "cache (exState (executeRequest s net)) = cache s"
  by (simp add: executeRequest_def executeLoop_frame)

lemma checkCircuit_cache:
  "checkCircuit s now = Refused e s1 \<Longrightarrow> cache s1 = cache s"
  "checkCircuit s now = Admitted s1 \<Longrightarrow> cache s1 = cache s"
  by (auto simp: checkCircuit_def Let_def split: if_splits)

text \<open>
  A call of \<open>request\<close> with method \<open>POST\<close>, \<open>PUT\<close> or \<open>DELETE\<close> neither reads nor writes
  the cache.
\<close>

lemma request_mutating_keeps_cache:
  assumes "\<not> readShaped opts"
  shows "cache (rState (request s t0 t1 rt ep opts net)) = cache s"
proof (cases "checkCircuit s t0")
  case (Served d s1)
  then show ?thesis by (simp add: checkCircuit_not_Served)
next
  case (Refused e s1)
  with assms checkCircuit_cache(1) [OF Refused] show ?thesis
    by (simp add: request_def requestEnter_def)
next
  case (Admitted s1)
  with assms checkCircuit_cache(2) [OF Admitted] show ?thesis
    by (simp add: request_def requestEnter_def requestSettle_def Let_def split: sum.splits)
qed

lemma createAlert_keeps_cache:
  "cache (rState (createAlert s t0 t1 rt body net)) = cache s"
  by (simp add: createAlert_def request_mutating_keeps_cache readShaped_def)

lemma executeRequest_alertsBefore:
  "executeRequest s alertsBefore =
     \<lparr> exResult = Inr (JArr [JStr ''alert-1'']), exState = s,
       exAttempts = [Response 200 ''OK'' (Inr (JArr [JStr ''alert-1'']))], exSleeps = [] \<rparr>"
  by (simp add: executeRequest_def executeLoop.simps attemptRequest_def alertsBefore_def
      responseOk_def maxRetries_def)

lemma executeRequest_alertsAfter:
  "executeRequest s alertsAfter =
     \<lparr> exResult = Inr (JArr [JStr ''alert-1'', JStr ''alert-2'']), exState = s,
       exAttempts = [Response 200 ''OK'' (Inr (JArr [JStr ''alert-1'', JStr ''alert-2'']))],
       exSleeps = [] \<rparr>"
  by (simp add: executeRequest_def executeLoop.simps attemptRequest_def alertsAfter_def
      responseOk_def maxRetries_def)

lemma executeRequest_created:
  "executeRequest s created =
     \<lparr> exResult = Inr (JStr ''alert-2''), exState = s,
       exAttempts = [Response 201 ''Created'' (Inr (JStr ''alert-2''))], exSleeps = [] \<rparr>"
  by (simp add: executeRequest_def executeLoop.simps attemptRequest_def created_def
      responseOk_def maxRetries_def)

lemmas api_defs = getAlerts_def createAlert_def addCamera_def getCameras_def request_def
  clearCache_def

text \<open>
  C4, where the code leaves the claim. On a new service the alerts are read (and cached)
  at time 0, an alert is created with \<open>createAlert\<close> at time 1000, and the alerts are read
  again at time 2000: the second read makes no network request and returns the list
  cached before the alert was created. With \<open>addCamera\<close> in the place of \<open>createAlert\<close>
  the second read goes to the network: \<open>addCamera\<close> clears the cache, \<open>createAlert\<close>
  does not.
\<close>

theorem C4_createAlert_leaves_stale_cache:
  "rResult (createAlert (rState (getAlerts (newBackend None) 0 100 100 ''{}'' alertsBefore))
      1000 1100 100 ''{}'' created) = Inr (JStr ''alert-2'')
   \<and> rAttempts (getAlerts
        (rState (createAlert (rState (getAlerts (newBackend None) 0 100 100 ''{}'' alertsBefore))
           1000 1100 100 ''{}'' created))
        2000 2100 100 ''{}'' alertsAfter) = []
   \<and> rResult (getAlerts
        (rState (createAlert (rState (getAlerts (newBackend None) 0 100 100 ''{}'' alertsBefore))
           1000 1100 100 ''{}'' created))
        2000 2100 100 ''{}'' alertsAfter) = Inr (JArr [JStr ''alert-1''])
   \<and> rAttempts (getAlerts
        (rState (addCamera (rState (getAlerts (newBackend None) 0 100 100 ''{}'' alertsBefore))
           1000 1100 100 ''{}'' created))
        2000 2100 100 ''{}'' alertsAfter)
       = [Response 200 ''OK'' (Inr (JArr [JStr ''alert-1'', JStr ''alert-2'']))]"
  by (simp add: api_defs newBackend_def enter_defs settle_defs executeRequest_alertsBefore
      executeRequest_alertsAfter executeRequest_created)

section \<open>Facts: the camera scenario\<close>

lemmas media_defs = openStream_def getTracks_def stopTracks_def newTrack_def
  addEndedListener_def notifyStatusChange_def handleError_def setStatus_def

lemmas ladder_defs = extractResolutions_def extractFrameRates_def extractFeatures_def
  maxAtLeast_def facingIncludes_def orDefault_def standardResolutions_def resolutionString_def
  toDecimal_table

lemmas scenario_defs = camA_def webcamTrack_def webcamCaps_def noCapabilities_def noOptions_def

lemma detectConnectionType_usb_camera: "detectConnectionType ''USB Camera'' = ''USB''"
  by (simp add: detectConnectionType_def toLowerCase_def lowerChar_def Let_def)

lemma svcDiscovered_eq:
  "svcDiscovered =
     \<lparr> connectedCameras = [(''cam-A'', camAInfo)],
       activeStreams = [],
       deviceCapabilities =
         [(''cam-A'', webcamCaps \<lparr> currentSettings := Some (specSettings webcamTrack) \<rparr>)],
       connectionStatus = [(''cam-A'', ''disconnected'')],
       statusEvents = [], errorEvents = [],
       streams = [(0, [(newTrack webcamTrack) \<lparr> trackLive := False \<rparr>])],
       nextStream = 1 \<rparr>"
  by (simp add: svcDiscovered_def discoverDevices_def videoInputs_def processDevice_def
      getDeviceCapabilities_def newCameraService_def scenario_defs camAInfo_def
      media_defs ladder_defs detectConnectionType_usb_camera Let_def)

lemma svcConnected_eq:
  "svcConnected =
     \<lparr> connectedCameras =
         [(''cam-A'', camAInfo \<lparr> camStatus := ''online'', lastConnected := Some 2000,
             camCurrentSettings := Some (specSettings webcamTrack) \<rparr>)],
       activeStreams = [(''cam-A'', camAConnection)],
       deviceCapabilities =
         [(''cam-A'', webcamCaps \<lparr> currentSettings := Some (specSettings webcamTrack) \<rparr>)],
       connectionStatus = [(''cam-A'', ''connected'')],
       statusEvents = [(''cam-A'', ''connecting''), (''cam-A'', ''connected'')], errorEvents = [],
       streams = [(0, [(newTrack webcamTrack) \<lparr> trackLive := False \<rparr>]),
                  (1, [(newTrack webcamTrack) \<lparr> endedListeners := [''cam-A''] \<rparr>])],
       nextStream = 2 \<rparr>"
  by (simp add: svcConnected_def svcDiscovered_eq connectToCamera_def connectAttempt_def establish_def
      buildConstraints_def truthyNumber_def truthyString_def
      scenario_defs camAInfo_def camAConnection_def
      media_defs orDefault_def Let_def)


section \<open>Facts: teardown\<close>

text \<open>
  What \<open>connectToCamera\<close> leaves when it connects a device with a stream of one video
  track: the connection is in the map, its stream is new and holds that one live track,
  and the \<open>ended\<close> listener of the device is on it.
\<close>

lemma connectToCamera_establishes:
  assumes "map_of (connectedCameras s) c \<noteq> None" and "map_of (activeStreams s) c = None"
    and "specKind sp = Video"
    and "connectToCamera s c opts (Inr [sp]) now = (Inr conn, s')"
  shows "map_of (activeStreams s') c = Some conn
    \<and> connStream conn = nextStream s \<and> nextStream s' = nextStream s + 1
    \<and> connVideoTrack conn = 0
    \<and> map_of (streams s') (connStream conn)
        = Some [(newTrack sp) \<lparr> endedListeners := [c] \<rparr>]"
  using assms
  by (auto simp: connectToCamera_def connectAttempt_def establish_def media_defs Let_def
      update_conv' split: sum.splits prod.splits if_splits)

lemma disconnectCamera_connected:
  assumes "map_of (activeStreams s) c = Some conn"
    and "map_of (streams s) (connStream conn) = Some ts"
  shows "disconnectCamera s c now =
     s\<lparr> streams := AList.update (connStream conn) (map (\<lambda>t. t\<lparr> trackLive := False \<rparr>) ts) (streams s),
        activeStreams := AList.delete c (activeStreams s),
        connectionStatus := AList.update c ''disconnected'' (connectionStatus s),
        connectedCameras := AList.map_entry c
          (\<lambda>i. i\<lparr> camStatus := ''available'', lastDisconnected := Some now \<rparr>) (connectedCameras s),
        statusEvents := statusEvents s @ [(c, ''disconnected'')] \<rparr>"
  using assms
  by (simp add: disconnectCamera_def stopTracks_def setStatus_def markAvailable_def
      notifyStatusChange_def Let_def)

lemma handleStreamEnd_eq:
  "handleStreamEnd s c now =
     s\<lparr> activeStreams := AList.delete c (activeStreams s),
        connectionStatus := AList.update c ''disconnected'' (connectionStatus s),
        connectedCameras := AList.map_entry c
          (\<lambda>i. i\<lparr> camStatus := ''available'', lastDisconnected := Some now \<rparr>) (connectedCameras s),
        statusEvents := statusEvents s @ [(c, ''stream_ended'')] \<rparr>"
  by (simp add: handleStreamEnd_def setStatus_def markAvailable_def notifyStatusChange_def Let_def)

lemma trackEnded_single:
  assumes "map_of (streams s) h = Some [t]" and "trackLive t" and "endedListeners t = [c]"
  shows "trackEnded s h 0 now =
     s\<lparr> streams := AList.update h [t\<lparr> trackLive := False \<rparr>] (streams s),
        activeStreams := AList.delete c (activeStreams s),
        connectionStatus := AList.update c ''disconnected'' (connectionStatus s),
        connectedCameras := AList.map_entry c
          (\<lambda>i. i\<lparr> camStatus := ''available'', lastDisconnected := Some now \<rparr>) (connectedCameras s),
        statusEvents := statusEvents s @ [(c, ''stream_ended'')] \<rparr>"
  using assms by (simp add: trackEnded_def handleStreamEnd_eq Let_def)

text \<open>
  C6. Let a device be connected with a stream of one live track, the video track on which
  \<open>connectToCamera\<close> registered its \<open>ended\<close> listener (what \<open>getUserMedia\<close> gives for
  the constraints built, which ask for video only). Then \<open>disconnectCamera\<close> and the
  \<open>ended\<close> event of the track leave the same connection map, status map, device table
  and streams: the connection is removed, the status is \<open>disconnected\<close>, the table entry
  is \<open>available\<close> and every track of the stream has ended. The two differ only in the
  status event handed to the callbacks.
\<close>

theorem C6_teardown_convergence:
  assumes "map_of (activeStreams s) c = Some conn"
    and "map_of (streams s) (connStream conn) = Some [t]"
    and "connVideoTrack conn = 0" and "trackLive t" and "endedListeners t = [c]"
  shows "teardownState (disconnectCamera s c now)
           = teardownState (trackEnded s (connStream conn) (connVideoTrack conn) now)
    \<and> map_of (activeStreams (disconnectCamera s c now)) c = None
    \<and> getCameraStatus (disconnectCamera s c now) c = ''disconnected''
    \<and> map_option camStatus (getCameraInfo (disconnectCamera s c now) c)
        = map_option (\<lambda>i. ''available'') (getCameraInfo s c)
    \<and> allStopped (disconnectCamera s c now) (connStream conn)
    \<and> statusEvents (disconnectCamera s c now) = statusEvents s @ [(c, ''disconnected'')]
    \<and> statusEvents (trackEnded s (connStream conn) (connVideoTrack conn) now)
        = statusEvents s @ [(c, ''stream_ended'')]"
proof -
  note d = disconnectCamera_connected [OF assms(1,2), of now]
  note e = trackEnded_single [OF assms(2,4,5), of now]
  have "teardownState (disconnectCamera s c now)
      = teardownState (trackEnded s (connStream conn) (connVideoTrack conn) now)"
    by (simp add: d e assms(3) teardownState_def)
  moreover have "map_of (activeStreams (disconnectCamera s c now)) c = None"
    by (simp add: d delete_conv')
  moreover have "getCameraStatus (disconnectCamera s c now) c = ''disconnected''"
    by (simp add: d getCameraStatus_def orString_def update_conv')
  moreover have "map_option camStatus (getCameraInfo (disconnectCamera s c now) c)
        = map_option (\<lambda>i. ''available'') (getCameraInfo s c)"
    by (simp add: d getCameraInfo_def map_of_map_entry split: option.splits)
  moreover have "allStopped (disconnectCamera s c now) (connStream conn)"
    by (simp add: d allStopped_def getTracks_def update_conv')
  ultimately show ?thesis by (simp add: d e assms(3))
qed

lemma svcConnected_stream:
  "map_of (streams svcConnected) 1 = Some [(newTrack webcamTrack) \<lparr> endedListeners := [''cam-A''] \<rparr>]"
  by (simp add: svcConnected_eq)

theorem C6_teardown_convergence_witness:
  "map_of (activeStreams svcConnected) ''cam-A'' = Some camAConnection
   \<and> map_of (streams svcConnected) (connStream camAConnection)
       = Some [(newTrack webcamTrack) \<lparr> endedListeners := [''cam-A''] \<rparr>]
   \<and> teardownState (disconnectCamera svcConnected ''cam-A'' 5000)
       = teardownState (trackEnded svcConnected 1 0 5000)
   \<and> map_of (activeStreams (disconnectCamera svcConnected ''cam-A'' 5000)) ''cam-A'' = None
   \<and> getCameraStatus (disconnectCamera svcConnected ''cam-A'' 5000) ''cam-A'' = ''disconnected''
   \<and> allStopped (disconnectCamera svcConnected ''cam-A'' 5000) 1"
proof -
  let ?t = "(newTrack webcamTrack) \<lparr> endedListeners := [''cam-A''] \<rparr>"
  have h: "map_of (activeStreams svcConnected) ''cam-A'' = Some camAConnection"
    "map_of (streams svcConnected) (connStream camAConnection) = Some [?t]"
    "connVideoTrack camAConnection = 0" "trackLive ?t" "endedListeners ?t = [''cam-A'']"
    by (simp_all add: svcConnected_eq camAConnection_def newTrack_def)
  have n: "connStream camAConnection = 1" "connVideoTrack camAConnection = 0"
    by (simp_all add: camAConnection_def)
  from C6_teardown_convergence [OF h, of 5000] h(1,2) show ?thesis
    unfolding n by simp
qed

section \<open>Facts: re-discovery\<close>

lemma getDeviceCapabilities_frame:
  "getDeviceCapabilities s probe = (caps, s1) \<Longrightarrow>
   connectedCameras s1 = connectedCameras s \<and> activeStreams s1 = activeStreams s
   \<and> deviceCapabilities s1 = deviceCapabilities s \<and> connectionStatus s1 = connectionStatus s
   \<and> nextStream s \<le> nextStream s1
   \<and> (\<forall>h < nextStream s. map_of (streams s1) h = map_of (streams s) h)"
  by (auto simp: getDeviceCapabilities_def media_defs update_conv' Let_def
      split: sum.splits option.splits prod.splits)

lemma getDeviceCapabilities_caps:
  "fst (getDeviceCapabilities s probe) = fst (getDeviceCapabilities s' probe)"
  by (auto simp: getDeviceCapabilities_def media_defs update_conv' Let_def
      split: sum.splits option.splits prod.splits)

lemma processDevice_frame:
  "activeStreams (processDevice s d now) = activeStreams s
   \<and> nextStream s \<le> nextStream (processDevice s d now)
   \<and> (\<forall>h < nextStream s. map_of (streams (processDevice s d now)) h = map_of (streams s) h)"
proof -
  obtain caps s1 where g: "getDeviceCapabilities s (devProbe d) = (caps, s1)"
    by (cases "getDeviceCapabilities s (devProbe d)") auto
  from getDeviceCapabilities_frame [OF g] show ?thesis
    by (simp add: processDevice_def g Let_def)
qed

lemma processDevice_status:
  "map_of (connectionStatus (processDevice s d now))
     = (map_of (connectionStatus s))(devId d \<mapsto> ''disconnected'')"
proof -
  obtain caps s1 where g: "getDeviceCapabilities s (devProbe d) = (caps, s1)"
    by (cases "getDeviceCapabilities s (devProbe d)") auto
  from getDeviceCapabilities_frame [OF g] show ?thesis
    by (simp add: processDevice_def g Let_def update_conv')
qed

lemma processDevice_tables:
  assumes "connectedCameras s = connectedCameras s'"
    and "deviceCapabilities s = deviceCapabilities s'"
  shows "connectedCameras (processDevice s d now) = connectedCameras (processDevice s' d now)
    \<and> deviceCapabilities (processDevice s d now) = deviceCapabilities (processDevice s' d now)"
proof -
  obtain caps s1 where g: "getDeviceCapabilities s (devProbe d) = (caps, s1)"
    by (cases "getDeviceCapabilities s (devProbe d)") auto
  obtain caps' s1' where g': "getDeviceCapabilities s' (devProbe d) = (caps', s1')"
    by (cases "getDeviceCapabilities s' (devProbe d)") auto
  have "caps = caps'"
    using getDeviceCapabilities_caps [of s "devProbe d" s'] g g' by simp
  with getDeviceCapabilities_frame [OF g] getDeviceCapabilities_frame [OF g'] assms
  show ?thesis by (simp add: processDevice_def g g' Let_def)
qed

lemma processDevice_keys:
  "fst ` set (connectedCameras (processDevice s d now))
     = insert (devId d) (fst ` set (connectedCameras s))"
proof -
  obtain caps s1 where g: "getDeviceCapabilities s (devProbe d) = (caps, s1)"
    by (cases "getDeviceCapabilities s (devProbe d)") auto
  from getDeviceCapabilities_frame [OF g] show ?thesis
    by (simp add: processDevice_def g Let_def dom_update)
qed

lemma foldl_processDevice_frame:
  "activeStreams (foldl (\<lambda>s d. processDevice s d now) s ds) = activeStreams s
   \<and> nextStream s \<le> nextStream (foldl (\<lambda>s d. processDevice s d now) s ds)
   \<and> (\<forall>h < nextStream s.
        map_of (streams (foldl (\<lambda>s d. processDevice s d now) s ds)) h = map_of (streams s) h)"
proof (induction ds arbitrary: s)
  case Nil
  show ?case by simp
next
  case (Cons d ds)
  from Cons.IH [of "processDevice s d now"] processDevice_frame [of s d now]
  show ?case by auto
qed

lemma foldl_processDevice_status:
  "map_of (connectionStatus (foldl (\<lambda>s d. processDevice s d now) s ds)) k
     = (if k \<in> devId ` set ds then Some ''disconnected'' else map_of (connectionStatus s) k)"
proof (induction ds arbitrary: s)
  case Nil
  show ?case by simp
next
  case (Cons d ds)
  from Cons.IH [of "processDevice s d now"] show ?case
    by (auto simp: processDevice_status)
qed

lemma foldl_processDevice_tables:
  "connectedCameras s = connectedCameras s' \<Longrightarrow> deviceCapabilities s = deviceCapabilities s' \<Longrightarrow>
   connectedCameras (foldl (\<lambda>s d. processDevice s d now) s ds)
     = connectedCameras (foldl (\<lambda>s d. processDevice s d now) s' ds)
   \<and> deviceCapabilities (foldl (\<lambda>s d. processDevice s d now) s ds)
     = deviceCapabilities (foldl (\<lambda>s d. processDevice s d now) s' ds)"
proof (induction ds arbitrary: s s')
  case Nil
  then show ?case by simp
next
  case (Cons d ds)
  from processDevice_tables [OF Cons.prems, of d now]
  have "connectedCameras (processDevice s d now) = connectedCameras (processDevice s' d now)"
    "deviceCapabilities (processDevice s d now) = deviceCapabilities (processDevice s' d now)"
    by simp_all
  from Cons.IH [OF this] show ?case by simp
qed

lemma foldl_processDevice_keys:
  "fst ` set (connectedCameras (foldl (\<lambda>s d. processDevice s d now) s ds))
     = devId ` set ds \<union> fst ` set (connectedCameras s)"
proof (induction ds arbitrary: s)
  case Nil
  show ?case by simp
next
  case (Cons d ds)
  from Cons.IH [of "processDevice s d now"] show ?case
    by (auto simp: processDevice_keys)
qed

lemma discoverDevices_activeStreams:
  "activeStreams (snd (discoverDevices s en now)) = activeStreams s"
  using foldl_processDevice_frame [of now "s\<lparr> connectedCameras := [], deviceCapabilities := [] \<rparr>"]
  by (simp add: discoverDevices_def Let_def split: sum.splits)

lemma discoverDevices_streams:
  "h < nextStream s \<Longrightarrow> getTracks (snd (discoverDevices s en now)) h = getTracks s h"
  using foldl_processDevice_frame [of now "s\<lparr> connectedCameras := [], deviceCapabilities := [] \<rparr>"]
  by (simp add: discoverDevices_def getTracks_def Let_def split: sum.splits)

lemma discoverDevices_status:
  "d \<in> set (videoInputs devices) \<Longrightarrow>
   getCameraStatus (snd (discoverDevices s (Inr devices) now)) (devId d) = ''disconnected''"
  by (simp add: discoverDevices_def getCameraStatus_def orString_def Let_def
      foldl_processDevice_status)

lemma discoverDevices_rebuilt:
  "connectedCameras (snd (discoverDevices s (Inr devices) now))
     = connectedCameras (snd (discoverDevices newCameraService (Inr devices) now))
   \<and> deviceCapabilities (snd (discoverDevices s (Inr devices) now))
     = deviceCapabilities (snd (discoverDevices newCameraService (Inr devices) now))"
  using foldl_processDevice_tables
    [of "s\<lparr> connectedCameras := [], deviceCapabilities := [] \<rparr>"
        "newCameraService\<lparr> connectedCameras := [], deviceCapabilities := [] \<rparr>" now]
  by (simp add: discoverDevices_def Let_def)

lemma discoverDevices_keys:
  "fst ` set (connectedCameras (snd (discoverDevices s (Inr devices) now)))
     = devId ` set (videoInputs devices)"
  by (simp add: discoverDevices_def Let_def foldl_processDevice_keys)

lemma svcRediscovered_status:
  "connectionStatus svcRediscovered = [(''cam-A'', ''disconnected'')]
   \<and> activeStreams svcRediscovered = [(''cam-A'', camAConnection)]"
  by (simp add: svcRediscovered_def svcConnected_eq discoverDevices_def videoInputs_def
      processDevice_def getDeviceCapabilities_def scenario_defs media_defs Let_def)

text \<open>
  C10. A discovery pass, whatever \<open>enumerateDevices\<close> gives, leaves the connection map as
  it is, and the tracks of every connection's stream as they are. When it succeeds, the
  device table and the capability map are what a pass on a new service would build (the
  old entries play no part; the table lists exactly the video inputs), and the status of
  every video input listed is \<open>disconnected\<close>, also for a device that is still connected:
  after the pass \<open>isConnected\<close> still holds for it while \<open>getCameraStatus\<close> gives
  \<open>disconnected\<close>, as for the camera of the scenario.
\<close>

theorem C10_rediscovery:
  "(\<forall>s en now. activeStreams (snd (discoverDevices s en now)) = activeStreams s)
   \<and> (\<forall>s en now c conn.
        map_of (activeStreams s) c = Some conn \<and> connStream conn < nextStream s
        \<longrightarrow> getTracks (snd (discoverDevices s en now)) (connStream conn)
            = getTracks s (connStream conn))
   \<and> (\<forall>s devices now.
        connectedCameras (snd (discoverDevices s (Inr devices) now))
          = connectedCameras (snd (discoverDevices newCameraService (Inr devices) now))
        \<and> deviceCapabilities (snd (discoverDevices s (Inr devices) now))
          = deviceCapabilities (snd (discoverDevices newCameraService (Inr devices) now))
        \<and> fst ` set (connectedCameras (snd (discoverDevices s (Inr devices) now)))
          = devId ` set (videoInputs devices))
   \<and> (\<forall>s devices now d.
        d \<in> set (videoInputs devices)
        \<longrightarrow> getCameraStatus (snd (discoverDevices s (Inr devices) now)) (devId d) = ''disconnected'')
   \<and> (\<forall>s devices now d.
        d \<in> set (videoInputs devices) \<and> isConnected s (devId d)
        \<longrightarrow> isConnected (snd (discoverDevices s (Inr devices) now)) (devId d)
          \<and> getCameraStatus (snd (discoverDevices s (Inr devices) now)) (devId d) = ''disconnected'')
   \<and> isConnected svcRediscovered ''cam-A''
   \<and> getCameraStatus svcRediscovered ''cam-A'' = ''disconnected''"
proof (intro conjI allI impI)
  fix s :: camera_service and en now
  show "activeStreams (snd (discoverDevices s en now)) = activeStreams s"
    by (rule discoverDevices_activeStreams)
next
  fix s :: camera_service and en now c conn
  assume "map_of (activeStreams s) c = Some conn \<and> connStream conn < nextStream s"
  then show "getTracks (snd (discoverDevices s en now)) (connStream conn)
      = getTracks s (connStream conn)"
    by (simp add: discoverDevices_streams)
next
  fix s :: camera_service and devices now
  show "connectedCameras (snd (discoverDevices s (Inr devices) now))
      = connectedCameras (snd (discoverDevices newCameraService (Inr devices) now))"
    and "deviceCapabilities (snd (discoverDevices s (Inr devices) now))
      = deviceCapabilities (snd (discoverDevices newCameraService (Inr devices) now))"
    using discoverDevices_rebuilt [of s devices now] by simp_all
  show "fst ` set (connectedCameras (snd (discoverDevices s (Inr devices) now)))
      = devId ` set (videoInputs devices)"
    by (rule discoverDevices_keys)
next
  fix s :: camera_service and devices now and d :: device
  assume "d \<in> set (videoInputs devices)"
  then show "getCameraStatus (snd (discoverDevices s (Inr devices) now)) (devId d) = ''disconnected''"
    by (rule discoverDevices_status)
next
  fix s :: camera_service and devices now and d :: device
  assume a: "d \<in> set (videoInputs devices) \<and> isConnected s (devId d)"
  then show "isConnected (snd (discoverDevices s (Inr devices) now)) (devId d)"
    by (simp add: isConnected_def discoverDevices_activeStreams)
  from a show "getCameraStatus (snd (discoverDevices s (Inr devices) now)) (devId d) = ''disconnected''"
    by (simp add: discoverDevices_status)
next
  show "isConnected svcRediscovered ''cam-A''"
    by (simp add: isConnected_def svcRediscovered_status)
  show "getCameraStatus svcRediscovered ''cam-A'' = ''disconnected''"
    by (simp add: getCameraStatus_def orString_def svcRediscovered_status)
qed

theorem C10_rediscovery_witness:
  "map_of (activeStreams svcConnected) ''cam-A'' = Some camAConnection
   \<and> connStream camAConnection < nextStream svcConnected
   \<and> getTracks svcRediscovered (connStream camAConnection)
       = [(newTrack webcamTrack) \<lparr> endedListeners := [''cam-A''] \<rparr>]
   \<and> camA \<in> set (videoInputs [camA])
   \<and> isConnected svcConnected (devId camA)
   \<and> isConnected svcRediscovered (devId camA)
   \<and> getCameraStatus svcRediscovered (devId camA) = ''disconnected''"
proof -
  note p2 = C10_rediscovery [THEN conjunct2, THEN conjunct1, rule_format]
  note p5 = C10_rediscovery [THEN conjunct2, THEN conjunct2, THEN conjunct2, THEN conjunct2,
    THEN conjunct1, rule_format]
  have h2: "map_of (activeStreams svcConnected) ''cam-A'' = Some camAConnection"
    "connStream camAConnection < nextStream svcConnected"
    by (simp_all add: svcConnected_eq camAConnection_def)
  have c2: "getTracks svcRediscovered (connStream camAConnection)
      = getTracks svcConnected (connStream camAConnection)"
    unfolding svcRediscovered_def using p2 [of svcConnected "''cam-A''" camAConnection] h2 by simp
  have g: "getTracks svcConnected (connStream camAConnection)
      = [(newTrack webcamTrack) \<lparr> endedListeners := [''cam-A''] \<rparr>]"
    by (simp add: svcConnected_eq camAConnection_def getTracks_def)
  have h5: "camA \<in> set (videoInputs [camA])" "isConnected svcConnected (devId camA)"
    by (simp_all add: videoInputs_def camA_def isConnected_def svcConnected_eq)
  have c5: "isConnected svcRediscovered (devId camA)
      \<and> getCameraStatus svcRediscovered (devId camA) = ''disconnected''"
    unfolding svcRediscovered_def using p5 [of camA "[camA]" svcConnected 3000] h5 by simp
  from h2 c2 g h5 c5 show ?thesis by simp
qed

section \<open>Facts: connecting twice\<close>


lemma getCameraStatus_setStatus:
  "st \<noteq> [] \<Longrightarrow> getCameraStatus (setStatus s c st) c = st"
  by (simp add: getCameraStatus_def setStatus_def orString_def update_conv')



subsection \<open>Live streams and their connections\<close>








subsection \<open>What each operation does to the live streams\<close>










lemma connectFailed_frame [simp]:
  "streamsOwned (connectFailed s c e) = streamsOwned s"
  "activeStreams (connectFailed s c e) = activeStreams s"
  "streams (connectFailed s c e) = streams s"
  by (simp_all add: connectFailed_def handleError_def notifyStatusChange_def setStatus_def
      streamsOwned_def connectionOf_def)





















subsection \<open>Two calls for one camera\<close>






section \<open>Facts: the alert cooldown\<close>




lemma handleAlert_insert_fails:
  assumes "cooldownPeriod \<le> arrivedAt ar - lastAlertTime s (alertKey (cand ar))"
    and "storeAlert ar = Some m"
  shows "handleAlert s pc ar = (CreateFailed (Error m), s)"
  using assms by (simp add: handleAlert_def Let_def)


lemma lastAlertTime_frameCount [simp]:
  "lastAlertTime (s\<lparr> frameCount := n \<rparr>) key = lastAlertTime s key"
  by (simp add: lastAlertTime_def)




section \<open>Facts: a failing insert\<close>

lemma processAlerts_settled_prefix:
  "processAlerts s pc pre = (ds, s1) \<Longrightarrow> allSettled ds \<Longrightarrow>
   processAlerts s pc (pre @ rest) =
     (ds @ fst (processAlerts s1 pc rest), snd (processAlerts s1 pc rest))"
proof (induction pre arbitrary: s ds s1)
  case Nil
  then show ?case by simp
next
  case (Cons ar pre)
  obtain d s' where h: "handleAlert s pc ar = (d, s')" by (cases "handleAlert s pc ar") auto
  obtain ds' s'' where p: "processAlerts s' pc pre = (ds', s'')"
    by (cases "processAlerts s' pc pre") auto
  from Cons.prems h have d: "d = Skipped \<or> d = Created"
    by (cases d) (auto simp: allSettled_def split: prod.splits)
  with Cons.prems h p have eq: "ds = d # ds'" "s1 = s''"
    by auto
  with Cons.prems(2) have "allSettled ds'" by (simp add: allSettled_def)
  from Cons.IH [OF p this] d h eq show ?case
    by (auto split: prod.splits)
qed

text \<open>
  C9 (as the code has it). When every candidate before \<open>ar\<close> in the batch was settled,
  \<open>ar\<close> is outside its cooldown and the store throws on its insert, the cycle ends there:
  the result is the one of the batch cut after \<open>ar\<close>. The alerts persisted before stay,
  \<open>ar\<close> sets no cooldown, and no later candidate is checked or persisted, whatever it is.
\<close>

theorem C9_failed_insert_ends_cycle:
  assumes "handleDetectionResults s pc pre = (ds, s1)" and "allSettled ds"
    and "cooldownPeriod \<le> arrivedAt ar - lastAlertTime s1 (alertKey (cand ar))"
    and "storeAlert ar = Some m"
  shows "handleDetectionResults s pc (pre @ ar # rest) = (ds @ [CreateFailed (Error m)], s1)"
proof -
  from assms(1) have p: "processAlerts s pc pre = (ds, s1)"
    by (simp add: handleDetectionResults_def)
  have "processAlerts s1 pc (ar # rest) = ([CreateFailed (Error m)], s1)"
    by (simp add: handleAlert_insert_fails [OF assms(3,4)])
  with processAlerts_settled_prefix [OF p assms(2), of "ar # rest"] show ?thesis
    by (simp add: handleDetectionResults_def)
qed

lemmas detection_defs = handleDetectionResults_def handleAlert_def lastAlertTime_def
  alertKey_def locTruthy_def locString_def orDefault_def cooldownPeriod_def Let_def

lemmas detection_scenario_defs = arrives_def arrivesStoreDown_def fight_def fall_def
  idleDetection_def

theorem C9_failed_insert_ends_cycle_witness:
  "fst (handleDetectionResults idleDetection (Some 2) [arrives fight 1000000]) = [Created]
   \<and> storeAlert (arrivesStoreDown fall 1000001) = Some storeDown
   \<and> handleDetectionResults idleDetection (Some 2)
        ([arrives fight 1000000] @ arrivesStoreDown fall 1000001 # [arrives fall 1000002])
       = ([Created, CreateFailed (Error storeDown)],
          snd (handleDetectionResults idleDetection (Some 2) [arrives fight 1000000]))"
proof -
  let ?pre = "[arrives fight 1000000]"
  let ?r = "handleDetectionResults idleDetection (Some 2) ?pre"
  have ds: "fst ?r = [Created]"
    by (simp add: detection_defs detection_scenario_defs)
  have h: "?r = (fst ?r, snd ?r)" "allSettled (fst ?r)"
    "cooldownPeriod \<le> arrivedAt (arrivesStoreDown fall 1000001)
       - lastAlertTime (snd ?r) (alertKey (cand (arrivesStoreDown fall 1000001)))"
    "storeAlert (arrivesStoreDown fall 1000001) = Some storeDown"
    by (simp_all add: ds allSettled_def) (simp_all add: detection_defs detection_scenario_defs)
  from C9_failed_insert_ends_cycle [OF h, of "[arrives fall 1000002]"] ds h(4)
  show ?thesis by simp
qed

text \<open>
  The specification keeps the candidates after a failed insert alive. In one batch the
  insert of the fight fails and the fall follows: the loop ends at the fight, and the
  fall, which the service would accept and persist were it alone in the batch, gets no
  cooldown check and no row.
\<close>

theorem C9_later_candidate_dropped_counterexample:
  "handleDetectionResults idleDetection (Some 2)
       [arrivesStoreDown fight 1000000, arrives fall 1000001]
     = ([CreateFailed (Error storeDown)], idleDetection)
   \<and> fst (handleDetectionResults idleDetection (Some 2) [arrives fall 1000001]) = [Created]
   \<and> length (alertsTable (snd (handleDetectionResults idleDetection (Some 2)
        [arrives fall 1000001]))) = 1"
  by (simp add: detection_defs detection_scenario_defs)

end
